theory Spec2Isabelle
  imports Complex_Main "HOL-Library.Multiset" "HOL-Library.Product_Lexorder"
begin

section \<open>JavaScript values\<close>

text \<open>
  The importer of \<^verbatim>\<open>trace_event_importer\<close> works on parsed JSON. A value is
  one of the JavaScript kinds below; an object is the list of its own enumerable
  properties in enumeration order (the first binding of a key is the property).
  Numbers are rationals: the model has no NaN and no rounding. Strings are lists of
  8-bit characters.
\<close>

datatype jsval =
    Undefined
  | Null
  | JBool bool
  | JNum rat
  | JStr string
  | JArr "jsval list"
  | JObj "(string \<times> jsval) list"

text \<open>What JavaScript throws: a \<^verbatim>\<open>TypeError\<close> of the engine (reading a property of
  \<^verbatim>\<open>undefined\<close> or \<^verbatim>\<open>null\<close>, calling what is not a function) or an
  \<^verbatim>\<open>Error\<close> of the code. \<open>Unmodelled\<close> is not an error of the program: it marks
  the points where the embedding stops, because the program goes on with an object of
  the engine in the place of one of its own (see \<open>propRead\<close> below).\<close>

datatype error = TypeError | Error string | Unmodelled

definition bindE :: "error + 'a \<Rightarrow> ('a \<Rightarrow> error + 'b) \<Rightarrow> error + 'b" where
  "bindE m f = (case m of Inl e \<Rightarrow> Inl e | Inr x \<Rightarrow> f x)"

text \<open>ToBoolean.\<close>

fun truthy :: "jsval \<Rightarrow> bool" where
  "truthy Undefined = False"
| "truthy Null = False"
| "truthy (JBool b) = b"
| "truthy (JNum n) = (n \<noteq> 0)"
| "truthy (JStr s) = (s \<noteq> [])"
| "truthy (JArr xs) = True"
| "truthy (JObj kvs) = True"

text \<open>Reading the property \<^verbatim>\<open>v.k\<close> for a key that is not an array index.\<close>

fun getProp :: "jsval \<Rightarrow> string \<Rightarrow> error + jsval" where
  "getProp Undefined k = Inl TypeError"
| "getProp Null k = Inl TypeError"
| "getProp (JObj kvs) k = Inr (case map_of kvs k of None \<Rightarrow> Undefined | Some v \<Rightarrow> v)"
| "getProp (JArr xs) k = Inr (if k = ''length'' then JNum (of_nat (length xs)) else Undefined)"
| "getProp (JStr s) k = Inr (if k = ''length'' then JNum (of_nat (length s)) else Undefined)"
| "getProp (JBool b) k = Inr Undefined"
| "getProp (JNum n) k = Inr Undefined"

text \<open>String.prototype.trim, on the characters the model has: tab, line feed,
  vertical tab, form feed, carriage return, space and no-break space.\<close>

definition isWhiteSpace :: "char \<Rightarrow> bool" where
  "isWhiteSpace c = ((of_char c :: nat) \<in> {9, 10, 11, 12, 13, 32, 160})"

definition trim :: "string \<Rightarrow> string" where
  "trim s = rev (dropWhile isWhiteSpace (rev (dropWhile isWhiteSpace s)))"

text \<open>String.prototype.indexOf(pat) > -1.\<close>

fun startsWith :: "string \<Rightarrow> string \<Rightarrow> bool" where
  "startsWith s [] = True"
| "startsWith [] (p # ps) = False"
| "startsWith (c # cs) (p # ps) = (c = p \<and> startsWith cs ps)"

fun contains :: "string \<Rightarrow> string \<Rightarrow> bool" where
  "contains [] pat = (pat = [])"
| "contains (c # cs) pat = (startsWith (c # cs) pat \<or> contains cs pat)"

text \<open>ToString. How JavaScript prints a number is a parameter, \<open>numberToString\<close>;
  an array prints its elements separated by commas, with nothing for
  \<^verbatim>\<open>undefined\<close> and \<^verbatim>\<open>null\<close>.\<close>

fun joinWith :: "string \<Rightarrow> string list \<Rightarrow> string" where
  "joinWith sep [] = []"
| "joinWith sep [x] = x"
| "joinWith sep (x # y # ys) = x @ sep @ joinWith sep (y # ys)"

fun jsToString :: "(rat \<Rightarrow> string) \<Rightarrow> jsval \<Rightarrow> string" where
  "jsToString numberToString Undefined = ''undefined''"
| "jsToString numberToString Null = ''null''"
| "jsToString numberToString (JBool b) = (if b then ''true'' else ''false'')"
| "jsToString numberToString (JNum n) = numberToString n"
| "jsToString numberToString (JStr s) = s"
| "jsToString numberToString (JArr xs) =
     joinWith '',''
       (map (\<lambda>x. if x = Undefined \<or> x = Null then [] else jsToString numberToString x) xs)"
| "jsToString numberToString (JObj kvs) = ''[object Object]''"

subsection \<open>Plain objects used as dictionaries\<close>

text \<open>
  The importer keeps its dictionaries in plain objects (\<^verbatim>\<open>{}\<close>) and reads them with
  \<^verbatim>\<open>dict[key]\<close>. Such a read finds the object's own property of the name and
  otherwise the property that the object inherits from \<^verbatim>\<open>Object.prototype\<close>; the
  names inherited are those of ECMAScript with its annex B. The inherited value is a
  function of the engine (for \<^verbatim>\<open>__proto__\<close> it is \<^verbatim>\<open>Object.prototype\<close> itself):
  it is not \<^verbatim>\<open>undefined\<close> and it is truthy.

  A dictionary is the list of its own properties. \<open>propRead\<close> is the read; the result
  \<open>Inherited k\<close> is the built-in found under the inherited name \<open>k\<close>.
  An assignment \<^verbatim>\<open>dict[key] = value\<close> writes an own property, except under the key
  \<^verbatim>\<open>__proto__\<close>: that assignment runs the setter of \<^verbatim>\<open>Object.prototype\<close>, which
  does nothing for a value that is neither an object nor \<^verbatim>\<open>null\<close>, and replaces the
  prototype of the dictionary otherwise. After such a replacement every read depends on
  the object assigned, and the embedding stops there.
\<close>

definition objectPrototypeKeys :: "string list" where
  "objectPrototypeKeys =
     [''constructor'', ''__defineGetter__'', ''__defineSetter__'', ''hasOwnProperty'',
      ''__lookupGetter__'', ''__lookupSetter__'', ''isPrototypeOf'',
      ''propertyIsEnumerable'', ''toString'', ''valueOf'', ''__proto__'',
      ''toLocaleString'']"

datatype 'a propValue = Own 'a | Inherited string | Missing

definition propRead :: "(string \<times> 'a) list \<Rightarrow> string \<Rightarrow> 'a propValue" where
  "propRead d k =
     (case map_of d k of
        Some v \<Rightarrow> Own v
      | None \<Rightarrow> if k \<in> set objectPrototypeKeys then Inherited k else Missing)"

text \<open>Whether the setter of \<^verbatim>\<open>__proto__\<close> acts on the value.\<close>

fun isObjectOrNull :: "jsval \<Rightarrow> bool" where
  "isObjectOrNull Null = True"
| "isObjectOrNull (JArr xs) = True"
| "isObjectOrNull (JObj kvs) = True"
| "isObjectOrNull v = False"

section \<open>TraceEventImporter.canImport\<close>

text \<open>\<^verbatim>\<open>arr.length && arr[0].ph\<close> as a condition, for an array \<^verbatim>\<open>arr\<close>.\<close>

definition firstHasPh :: "jsval list \<Rightarrow> error + bool" where
  "firstHasPh xs =
     (case xs of
        [] \<Rightarrow> Inr False
      | x # _ \<Rightarrow> bindE (getProp x ''ph'') (\<lambda>ph. Inr (truthy ph)))"

definition canImport :: "jsval \<Rightarrow> error + bool" where
  "canImport eventData =
     (case eventData of
        JStr s \<Rightarrow>
          (case trim s of
             [] \<Rightarrow> Inr False
           | c # _ \<Rightarrow> Inr (c = CHR ''{'' \<or> c = CHR ''[''))
      | _ \<Rightarrow>
          bindE (case eventData of JArr xs \<Rightarrow> firstHasPh xs | _ \<Rightarrow> Inr False)
            (\<lambda>isEvents.
               if isEvents then Inr True
               else
                 bindE (getProp eventData ''traceEvents'')
                   (\<lambda>traceEvents.
                      if truthy traceEvents then
                        (case traceEvents of
                           JArr ys \<Rightarrow>
                             bindE (firstHasPh ys)
                               (\<lambda>hasPh.
                                  if hasPh then Inr True
                                  else
                                    bindE (getProp eventData ''samples'')
                                      (\<lambda>samples.
                                         bindE (getProp samples ''length'')
                                           (\<lambda>len.
                                              if truthy len then
                                                bindE (getProp eventData ''stackFrames'')
                                                  (\<lambda>stackFrames.
                                                     Inr (stackFrames \<noteq> Undefined))
                                              else Inr False)))
                         | _ \<Rightarrow> Inr False)
                      else Inr False)))"

text \<open>The acceptance predicate in the words of the specification: a string whose first
  character after trimming is an opening brace or bracket, or an array whose first
  element has a \<^verbatim>\<open>ph\<close> field, or an object whose \<^verbatim>\<open>traceEvents\<close> is such an
  array, or an object whose \<^verbatim>\<open>samples\<close> and \<^verbatim>\<open>stackFrames\<close> are present.\<close>

definition hasField :: "jsval \<Rightarrow> string \<Rightarrow> bool" where
  "hasField v k = (case v of JObj kvs \<Rightarrow> map_of kvs k \<noteq> None | _ \<Rightarrow> False)"

definition isEventArray :: "jsval \<Rightarrow> bool" where
  "isEventArray v = (case v of JArr (x # _) \<Rightarrow> hasField x ''ph'' | _ \<Rightarrow> False)"

definition spec_canImport :: "jsval \<Rightarrow> bool" where
  "spec_canImport v =
     (case v of
        JStr s \<Rightarrow> startsWith (trim s) ''{'' \<or> startsWith (trim s) ''[''
      | JArr xs \<Rightarrow> isEventArray v
      | JObj kvs \<Rightarrow>
          (case map_of kvs ''traceEvents'' of Some t \<Rightarrow> isEventArray t | None \<Rightarrow> False)
          \<or> (hasField v ''samples'' \<and> hasField v ''stackFrames'')
      | _ \<Rightarrow> False)"

text \<open>What the code accepts: the sampling fields are looked at only under a
  \<^verbatim>\<open>traceEvents\<close> array, and each test is a truthiness test.\<close>

definition phTruthy :: "jsval \<Rightarrow> bool" where
  "phTruthy x = (case getProp x ''ph'' of Inr ph \<Rightarrow> truthy ph | Inl _ \<Rightarrow> False)"

definition isTruthyEventArray :: "jsval \<Rightarrow> bool" where
  "isTruthyEventArray v = (case v of JArr (x # _) \<Rightarrow> phTruthy x | _ \<Rightarrow> False)"

definition lengthTruthy :: "jsval \<Rightarrow> bool" where
  "lengthTruthy v = (case getProp v ''length'' of Inr n \<Rightarrow> truthy n | Inl _ \<Rightarrow> False)"

definition code_canImport :: "jsval \<Rightarrow> bool" where
  "code_canImport v =
     (case v of
        JStr s \<Rightarrow> startsWith (trim s) ''{'' \<or> startsWith (trim s) ''[''
      | JArr xs \<Rightarrow> isTruthyEventArray v
      | JObj kvs \<Rightarrow>
          (case map_of kvs ''traceEvents'' of
             Some (JArr ys) \<Rightarrow>
               isTruthyEventArray (JArr ys)
               \<or> ((case map_of kvs ''samples'' of Some sm \<Rightarrow> lengthTruthy sm | None \<Rightarrow> False)
                  \<and> (case map_of kvs ''stackFrames'' of
                       Some sf \<Rightarrow> sf \<noteq> Undefined | None \<Rightarrow> False))
           | _ \<Rightarrow> False)
      | _ \<Rightarrow> False)"

section \<open>Model.getAllThreads\<close>

text \<open>A dictionary keyed by pid or tid is the list of its entries in \<^verbatim>\<open>for-in\<close>
  order. The threads are kept abstract here.\<close>

type_synonym ('k, 'v) dict = "('k \<times> 'v) list"

definition dictValues :: "('k, 'v) dict \<Rightarrow> 'v list" where
  "dictValues d = map snd d"

text \<open>\<^verbatim>\<open>var process\<close> is hoisted: during the first loop it is still
  \<^verbatim>\<open>undefined\<close>, so the first iteration over \<^verbatim>\<open>kernel.threads\<close> reads
  \<^verbatim>\<open>undefined.threads\<close>.\<close>

definition getAllThreads ::
  "(nat, 't) dict \<Rightarrow> (nat, (nat, 't) dict) dict \<Rightarrow> error + 't list" where
  "getAllThreads kernelThreads processes =
     (case kernelThreads of
        _ # _ \<Rightarrow> Inl TypeError
      | [] \<Rightarrow> Inr (concat (map (\<lambda>(pid, threads). dictValues threads) processes)))"

section \<open>Trace events\<close>

text \<open>
  The typed view of a raw event record: one field per property the importer reads.
  \<open>None\<close> (or \<open>Undefined\<close>) stands for a property that is \<^verbatim>\<open>undefined\<close>.
  A property that the code tests for truthiness (the flow flags, \<^verbatim>\<open>bind_id\<close>)
  stays a \<open>jsval\<close>. The fields \<open>ev_id\<close> and \<open>ev_sf\<close> hold the string form of
  the property, which is all the importer uses (as a dictionary key and in string
  concatenation). \<open>ev_argsStripped\<close>
  and \<open>ev_flowPhase\<close> are the two properties the importer itself writes.
\<close>

type_synonym args = "(string \<times> jsval) list"

record event =
  ev_ph :: string
  ev_cat :: "string option"
  ev_name :: "string option"
  ev_pid :: nat
  ev_tid :: nat
  ev_ts :: rat
  ev_tts :: "rat option"
  ev_dur :: "rat option"
  ev_tdur :: "rat option"
  ev_args :: "args option"
  ev_argsStripped :: bool
  ev_cname :: "string option"
  ev_id :: "string option"
  ev_bind_id :: jsval
  ev_flow_in :: jsval
  ev_flow_out :: jsval
  ev_flowPhase :: "string option"
  ev_s :: "string option"
  ev_bp :: jsval
  ev_sf :: "string option"
  ev_stack :: jsval
  ev_esf :: "string option"
  ev_estack :: jsval
  ev_use_async_tts :: jsval

text \<open>An event of phase \<open>p\<close> at \<open>t\<close> microseconds on thread \<open>tid\<close> of process
  \<open>pid\<close>, with every other property undefined; concrete events are written as
  updates of it.\<close>

definition mkEvent :: "string \<Rightarrow> nat \<Rightarrow> nat \<Rightarrow> rat \<Rightarrow> event" where
  "mkEvent p pid tid t =
     \<lparr> ev_ph = p, ev_cat = None, ev_name = None, ev_pid = pid, ev_tid = tid, ev_ts = t,
       ev_tts = None, ev_dur = None, ev_tdur = None, ev_args = None,
       ev_argsStripped = False, ev_cname = None, ev_id = None, ev_bind_id = Undefined,
       ev_flow_in = Undefined, ev_flow_out = Undefined, ev_flowPhase = None,
       ev_s = None, ev_bp = Undefined, ev_sf = None, ev_stack = Undefined,
       ev_esf = None, ev_estack = Undefined, ev_use_async_tts = Undefined \<rparr>"

definition PRODUCER :: string where "PRODUCER = ''producer''"
definition CONSUMER :: string where "CONSUMER = ''consumer''"
definition STEP :: string where "STEP = ''step''"

text \<open>Modelled from the spec: \<^verbatim>\<open>Units.timestampFromUs\<close> and
  \<^verbatim>\<open>Units.maybeTimestampFromUs\<close> of base/units/units.js, which is not under src/.
  The specification (external interfaces) gives input timestamps in microseconds and
  the model's time unit as milliseconds.\<close>

definition timestampFromUs :: "rat \<Rightarrow> rat" where
  "timestampFromUs us = us / 1000"

definition maybeTimestampFromUs :: "rat option \<Rightarrow> rat option" where
  "maybeTimestampFromUs us = map_option timestampFromUs us"

text \<open>Colour ids come from the user-interface colour scheme, which is out of scope:
  an id is kept as the call that yields it.\<close>

datatype colorId = ReservedName string | GeneralPurposeString string

definition strTruthy :: "string option \<Rightarrow> bool" where
  "strTruthy x = (case x of Some s \<Rightarrow> s \<noteq> [] | None \<Rightarrow> False)"

definition getEventColor :: "event \<Rightarrow> string option \<Rightarrow> colorId option" where
  "getEventColor event opt_customName =
     (if strTruthy (ev_cname event) then map_option ReservedName (ev_cname event)
      else if strTruthy opt_customName then map_option GeneralPurposeString opt_customName
      else if strTruthy (ev_name event) then map_option GeneralPurposeString (ev_name event)
      else None)"

section \<open>The model graph\<close>

text \<open>Dictionaries are lists of entries in \<^verbatim>\<open>for-in\<close> order: ascending for the
  integer keys (pid, tid), insertion order for the other keys.\<close>

fun dictPutNat :: "nat \<Rightarrow> 'v \<Rightarrow> (nat \<times> 'v) list \<Rightarrow> (nat \<times> 'v) list" where
  "dictPutNat k v [] = [(k, v)]"
| "dictPutNat k v ((k', v') # d) =
     (if k = k' then (k, v) # d
      else if k < k' then (k, v) # (k', v') # d
      else (k', v') # dictPutNat k v d)"

fun dictPut :: "'k \<Rightarrow> 'v \<Rightarrow> ('k \<times> 'v) list \<Rightarrow> ('k \<times> 'v) list" where
  "dictPut k v [] = [(k, v)]"
| "dictPut k v ((k', v') # d) =
     (if k = k' then (k, v) # d else (k', v') # dictPut k v d)"

definition dictDelete :: "'k \<Rightarrow> ('k \<times> 'v) list \<Rightarrow> ('k \<times> 'v) list" where
  "dictDelete k d = filter (\<lambda>kv. fst kv \<noteq> k) d"

text \<open>A warning record. The message is kept as the operands of the string
  concatenation that builds it, in order, so that no number has to be printed.\<close>

record warning =
  w_type :: string
  w_message :: "jsval list"

definition optStr :: "string option \<Rightarrow> jsval" where
  "optStr x = (case x of None \<Rightarrow> Undefined | Some s \<Rightarrow> JStr s)"

record slice =
  sl_category :: "string option"
  sl_title :: "string option"
  sl_colorId :: "colorId option"
  sl_start :: rat
  sl_args :: args
  sl_duration :: "rat option"
  sl_cpuStart :: "rat option"
  sl_cpuDuration :: "rat option"
  sl_argsStripped :: bool
  sl_bind_id :: jsval
  sl_startStackFrame :: "string option"
  sl_endStackFrame :: "string option"
  sl_outFlowEvents :: "nat list"
  sl_inFlowEvents :: "nat list"

text \<open>A thread is referred to by (pid, tid), a slice of a slice group by its position
  in the group, a stack frame by its fully-qualified id, a flow event by its position in
  the importer's list of flow events.\<close>

type_synonym threadRef = "nat \<times> nat"

record asyncSliceInfo =
  as_category :: "string option"
  as_title :: string
  as_colorId :: "colorId option"
  as_start :: rat
  as_args :: args
  as_duration :: rat
  as_isTopLevel :: "bool option"
  as_cpuStart :: "rat option"
  as_cpuDuration :: jsval
  as_argsStripped :: bool
  as_startThread :: "threadRef option"
  as_endThread :: "threadRef option"
  as_startStackFrame :: "string option"
  as_endStackFrame :: "string option"
  as_id :: "string option"
  as_error :: "string option"

datatype asyncSlice = AsyncSlice (info: asyncSliceInfo) (subSlices: "asyncSlice list")

text \<open>Modelled from the spec: the constructor of \<^verbatim>\<open>AsyncSlice\<close>
  (model/async_slice.js, not under src/), with the argument order of its calls in the
  importer; the specification's data model lists the fields. The thread duration is a
  \<open>jsval\<close> because one call of the importer hands a flag in its place.\<close>

definition newAsyncSlice ::
  "string option \<Rightarrow> string \<Rightarrow> colorId option \<Rightarrow> rat \<Rightarrow> args \<Rightarrow> rat \<Rightarrow> bool option \<Rightarrow>
   rat option \<Rightarrow> jsval \<Rightarrow> bool \<Rightarrow> asyncSliceInfo" where
  "newAsyncSlice category title colorId start args duration opt_isTopLevel
       opt_cpuStart opt_cpuDuration opt_argsStripped =
     \<lparr> as_category = category, as_title = title, as_colorId = colorId, as_start = start,
       as_args = args, as_duration = duration, as_isTopLevel = opt_isTopLevel,
       as_cpuStart = opt_cpuStart, as_cpuDuration = opt_cpuDuration,
       as_argsStripped = opt_argsStripped, as_startThread = None, as_endThread = None,
       as_startStackFrame = None, as_endStackFrame = None, as_id = None,
       as_error = None \<rparr>"

text \<open>Modelled from the spec: \<^verbatim>\<open>SliceGroup\<close> (model/slice_group.js, not under
  src/). The specification (4.2): the group keeps a stack of open slices; B pushes an
  open slice, E closes the top one, X pushes a closed slice; a B, E or thread instant
  whose timestamp is below the greatest timestamp observed before in the group is
  refused.\<close>

record sliceGroup =
  sg_slices :: "slice list"
  sg_openPartialSlices :: "nat list"
  sg_greatestTs :: "rat option"

definition newSliceGroup :: sliceGroup where
  "newSliceGroup = \<lparr> sg_slices = [], sg_openPartialSlices = [], sg_greatestTs = None \<rparr>"

definition isTimestampValidForBeginOrEnd :: "sliceGroup \<Rightarrow> rat \<Rightarrow> bool" where
  "isTimestampValidForBeginOrEnd g ts =
     (case sg_greatestTs g of None \<Rightarrow> True | Some m \<Rightarrow> \<not> ts < m)"

definition observeTs :: "rat \<Rightarrow> rat option \<Rightarrow> rat option" where
  "observeTs ts m = (case m of None \<Rightarrow> Some ts | Some g \<Rightarrow> Some (max g ts))"

definition openSliceCount :: "sliceGroup \<Rightarrow> nat" where
  "openSliceCount g = length (sg_openPartialSlices g)"

definition newSlice ::
  "string option \<Rightarrow> string option \<Rightarrow> colorId option \<Rightarrow> rat \<Rightarrow> args \<Rightarrow> rat option \<Rightarrow>
   rat option \<Rightarrow> rat option \<Rightarrow> bool \<Rightarrow> jsval \<Rightarrow> slice" where
  "newSlice category title colorId start args opt_duration opt_cpuStart opt_cpuDuration
       opt_argsStripped opt_bind_id =
     \<lparr> sl_category = category, sl_title = title, sl_colorId = colorId, sl_start = start,
       sl_args = args, sl_duration = opt_duration, sl_cpuStart = opt_cpuStart,
       sl_cpuDuration = opt_cpuDuration, sl_argsStripped = opt_argsStripped,
       sl_bind_id = opt_bind_id, sl_startStackFrame = None, sl_endStackFrame = None,
       sl_outFlowEvents = [], sl_inFlowEvents = [] \<rparr>"

text \<open>Each of the three returns the group and the position of the slice it made or
  closed.\<close>

definition beginSlice ::
  "sliceGroup \<Rightarrow> string option \<Rightarrow> string option \<Rightarrow> rat \<Rightarrow> args \<Rightarrow> rat option \<Rightarrow> bool \<Rightarrow>
   colorId option \<Rightarrow> sliceGroup \<times> nat" where
  "beginSlice g category title ts opt_args opt_tts opt_argsStripped opt_colorId =
     (g\<lparr> sg_slices := sg_slices g @
            [newSlice category title opt_colorId ts opt_args None opt_tts None
               opt_argsStripped Undefined],
         sg_openPartialSlices := sg_openPartialSlices g @ [length (sg_slices g)],
         sg_greatestTs := observeTs ts (sg_greatestTs g) \<rparr>,
      length (sg_slices g))"

definition closeSlice :: "rat \<Rightarrow> rat option \<Rightarrow> slice \<Rightarrow> slice" where
  "closeSlice ts opt_tts sl =
     sl\<lparr> sl_duration := Some (ts - sl_start sl),
         sl_cpuDuration :=
           (case (opt_tts, sl_cpuStart sl) of
              (Some tts, Some cpuStart) \<Rightarrow> Some (tts - cpuStart)
            | _ \<Rightarrow> None) \<rparr>"

definition endSlice :: "sliceGroup \<Rightarrow> rat \<Rightarrow> rat option \<Rightarrow> error + sliceGroup \<times> nat" where
  "endSlice g ts opt_tts =
     (case rev (sg_openPartialSlices g) of
        [] \<Rightarrow> Inl (Error ''endSlice called without an open slice.'')
      | i # rest \<Rightarrow>
          Inr (g\<lparr> sg_slices := (sg_slices g)[i := closeSlice ts opt_tts (sg_slices g ! i)],
                  sg_openPartialSlices := rev rest,
                  sg_greatestTs := observeTs ts (sg_greatestTs g) \<rparr>,
               i))"

definition pushCompleteSlice ::
  "sliceGroup \<Rightarrow> string option \<Rightarrow> string option \<Rightarrow> rat \<Rightarrow> rat option \<Rightarrow> rat option \<Rightarrow>
   rat option \<Rightarrow> args \<Rightarrow> bool \<Rightarrow> colorId option \<Rightarrow> jsval \<Rightarrow>
   sliceGroup \<times> nat" where
  "pushCompleteSlice g category title ts duration tts cpuDuration opt_args
       opt_argsStripped opt_colorId opt_bind_id =
     (g\<lparr> sg_slices := sg_slices g @
            [newSlice category title opt_colorId ts opt_args duration tts cpuDuration
               opt_argsStripped opt_bind_id] \<rparr>,
      length (sg_slices g))"

text \<open>Modelled from the spec: \<^verbatim>\<open>CounterSeries\<close> and \<^verbatim>\<open>Counter\<close>
  (model/counter_series.js and model/counter.js, not under src/). The specification
  (data model): a counter has its series; a sample push adds one sample, with the
  timestamp, to a series.\<close>

record counterSeries =
  cs_name :: string
  cs_colorId :: "colorId option"
  cs_samples :: "(rat \<times> jsval) list"

definition newCounterSeries :: "string \<Rightarrow> colorId option \<Rightarrow> counterSeries" where
  "newCounterSeries name colorId = \<lparr> cs_name = name, cs_colorId = colorId, cs_samples = [] \<rparr>"

definition addCounterSample :: "rat \<Rightarrow> jsval \<Rightarrow> counterSeries \<Rightarrow> counterSeries" where
  "addCounterSample ts val series = series\<lparr> cs_samples := cs_samples series @ [(ts, val)] \<rparr>"

record counter =
  ctr_id :: string
  ctr_category :: "string option"
  ctr_name :: "string option"
  ctr_series :: "counterSeries list"

definition numSeries :: "counter \<Rightarrow> nat" where
  "numSeries ctr = length (ctr_series ctr)"

definition addSeries :: "counterSeries \<Rightarrow> counter \<Rightarrow> counter" where
  "addSeries series ctr = ctr\<lparr> ctr_series := ctr_series ctr @ [series] \<rparr>"

text \<open>Modelled from the spec: \<^verbatim>\<open>Thread\<close> and \<^verbatim>\<open>Process\<close> (model/thread.js,
  model/process.js, not under src/). The specification (data model): a thread owns a
  slice group and an async slice group; a process owns its threads by tid and its
  counters; both are created on first reference.\<close>

record thread =
  th_sliceGroup :: sliceGroup
  th_asyncSliceGroup :: "asyncSlice list"

definition newThread :: thread where
  "newThread = \<lparr> th_sliceGroup = newSliceGroup, th_asyncSliceGroup = [] \<rparr>"

text \<open>Modelled from the spec: \<^verbatim>\<open>GlobalInstantEvent\<close> and
  \<^verbatim>\<open>ProcessInstantEvent\<close> (model/instant_event.js, not under src/), with the
  arguments of their construction in the importer.\<close>

record instantEvent =
  ie_category :: "string option"
  ie_title :: "string option"
  ie_colorId :: "colorId option"
  ie_start :: rat
  ie_args :: args

record process =
  pr_threads :: "(nat \<times> thread) list"
  pr_counters :: "(string \<times> counter) list"
  pr_instantEvents :: "instantEvent list"

definition newProcess :: process where
  "newProcess = \<lparr> pr_threads = [], pr_counters = [], pr_instantEvents = [] \<rparr>"

record stackFrame =
  sf_title :: "string option"
  sf_parentFrame :: "string option"

text \<open>Modelled from the spec: \<^verbatim>\<open>FlowEvent\<close> (model/flow_event.js, not under
  src/), with the arguments of its construction in the importer and the fields the
  importer writes. The start is \<open>None\<close> when the code computes it from an undefined
  duration.\<close>

type_synonym sliceRef = "threadRef \<times> nat"

record flowEvent =
  fe_category :: "string option"
  fe_id :: jsval
  fe_title :: "string option"
  fe_colorId :: "colorId option"
  fe_start :: "rat option"
  fe_args :: args
  fe_startSlice :: "sliceRef option"
  fe_endSlice :: "sliceRef option"
  fe_duration :: "rat option"
  fe_startStackFrame :: "string option"
  fe_endStackFrame :: "string option"

text \<open>The part of \<^verbatim>\<open>Model\<close> (model/model.js) that the importer writes. The
  flow event objects are kept in \<open>m_flowEventObjects\<close>, by position;
  \<open>m_flowEvents\<close> is the model's array \<^verbatim>\<open>flowEvents\<close>, of positions.\<close>

record model =
  m_kernel_threads :: "(nat \<times> thread) list"
  m_processes :: "(nat \<times> process) list"
  m_stackFrames :: "(string \<times> stackFrame) list"
  m_instantEvents :: "instantEvent list"
  m_flowEventObjects :: "flowEvent list"
  m_flowEvents :: "nat list"
  m_importWarnings :: "warning list"
  m_reportedImportWarnings :: "string list"

definition newModel :: model where
  "newModel =
     \<lparr> m_kernel_threads = [], m_processes = [], m_stackFrames = [],
       m_instantEvents = [], m_flowEventObjects = [], m_flowEvents = [],
       m_importWarnings = [], m_reportedImportWarnings = [] \<rparr>"

definition importWarning :: "warning \<Rightarrow> model \<Rightarrow> model" where
  "importWarning data m =
     (let m1 = m\<lparr> m_importWarnings := m_importWarnings m @ [data] \<rparr>
      in if w_type data \<in> set (m_reportedImportWarnings m1) then m1
         else m1\<lparr> m_reportedImportWarnings := m_reportedImportWarnings m1 @ [w_type data] \<rparr>)"

definition getOrCreateProcess :: "nat \<Rightarrow> model \<Rightarrow> model" where
  "getOrCreateProcess pid m =
     (case map_of (m_processes m) pid of
        Some p \<Rightarrow> m
      | None \<Rightarrow> m\<lparr> m_processes := dictPutNat pid newProcess (m_processes m) \<rparr>)"

definition getProcess :: "model \<Rightarrow> nat \<Rightarrow> process" where
  "getProcess m pid = (case map_of (m_processes m) pid of Some p \<Rightarrow> p | None \<Rightarrow> newProcess)"

definition setProcess :: "nat \<Rightarrow> process \<Rightarrow> model \<Rightarrow> model" where
  "setProcess pid p m = m\<lparr> m_processes := dictPutNat pid p (m_processes m) \<rparr>"

definition getOrCreateThread :: "nat \<Rightarrow> process \<Rightarrow> process" where
  "getOrCreateThread tid p =
     (case map_of (pr_threads p) tid of
        Some t \<Rightarrow> p
      | None \<Rightarrow> p\<lparr> pr_threads := dictPutNat tid newThread (pr_threads p) \<rparr>)"

definition getThread :: "model \<Rightarrow> threadRef \<Rightarrow> thread" where
  "getThread m r =
     (case map_of (pr_threads (getProcess m (fst r))) (snd r) of
        Some t \<Rightarrow> t
      | None \<Rightarrow> newThread)"

definition setThread :: "threadRef \<Rightarrow> thread \<Rightarrow> model \<Rightarrow> model" where
  "setThread r t m =
     (let p = getProcess m (fst r)
      in setProcess (fst r) (p\<lparr> pr_threads := dictPutNat (snd r) t (pr_threads p) \<rparr>) m)"

text \<open>\<^verbatim>\<open>model.getOrCreateProcess(pid).getOrCreateThread(tid)\<close>: the model with the
  process and the thread in it.\<close>

definition getOrCreateProcessThread :: "nat \<Rightarrow> nat \<Rightarrow> model \<Rightarrow> model" where
  "getOrCreateProcessThread pid tid m =
     (let m1 = getOrCreateProcess pid m
      in setProcess pid (getOrCreateThread tid (getProcess m1 pid)) m1)"

section \<open>The importer: dispatch-time handlers\<close>

text \<open>Names of the source that end in an underscore are written without it
  (\<open>model_of\<close> for the field \<^verbatim>\<open>model_\<close>).\<close>

text \<open>An entry of a deferred queue; the flow queue's entries carry two more
  fields.\<close>

record eventState =
  es_sequenceNumber :: nat
  es_event :: event
  es_thread :: threadRef

record flowEventState = eventState +
  fes_refGuid :: nat
  fes_slice :: "nat option"

record importer =
  model_of :: model
  allAsyncEvents :: "eventState list"
  allFlowEvents :: "flowEventState list"
  allObjectEvents :: "eventState list"

definition newImporter :: "model \<Rightarrow> importer" where
  "newImporter m =
     \<lparr> model_of = m, allAsyncEvents = [], allFlowEvents = [], allObjectEvents = [] \<rparr>"

text \<open>Values are immutable in the model, so a deep copy is the value itself.\<close>

definition deepCopyIfNeeded :: "args option \<Rightarrow> args" where
  "deepCopyIfNeeded obj = (case obj of None \<Rightarrow> [] | Some a \<Rightarrow> a)"

definition processAsyncEvent :: "event \<Rightarrow> importer \<Rightarrow> importer" where
  "processAsyncEvent event imp =
     (let m = getOrCreateProcessThread (ev_pid event) (ev_tid event) (model_of imp)
      in imp\<lparr> model_of := m,
              allAsyncEvents := allAsyncEvents imp @
                [\<lparr> es_sequenceNumber = length (allAsyncEvents imp), es_event = event,
                   es_thread = (ev_pid event, ev_tid event) \<rparr>] \<rparr>)"



text \<open>The comparison function handed to \<^verbatim>\<open>Array.prototype.sort\<close> in
  \<^verbatim>\<open>createAsyncSlices_\<close>, \<^verbatim>\<open>createLegacyAsyncSlices_\<close>,
  \<^verbatim>\<open>createFlowSlices_\<close> and \<^verbatim>\<open>createExplicitObjects_\<close> (the same function
  in all four; the last three write \<^verbatim>\<open>d != 0\<close> for \<^verbatim>\<open>d !== 0\<close>, which is the same
  test on numbers). The timestamp of an event is a number.\<close>

definition compareEventStates ::
  "'a eventState_scheme \<Rightarrow> 'a eventState_scheme \<Rightarrow> rat" where
  "compareEventStates x y =
     (let d = ev_ts (es_event x) - ev_ts (es_event y)
      in if d \<noteq> 0 then d
         else rat_of_nat (es_sequenceNumber x) - rat_of_nat (es_sequenceNumber y))"


fun insertBy :: "('a \<Rightarrow> 'a \<Rightarrow> rat) \<Rightarrow> 'a \<Rightarrow> 'a list \<Rightarrow> 'a list" where
  "insertBy cmp x [] = [x]"
| "insertBy cmp x (y # ys) = (if cmp x y \<le> 0 then x # y # ys else y # insertBy cmp x ys)"

definition jsSort :: "('a \<Rightarrow> 'a \<Rightarrow> rat) \<Rightarrow> 'a list \<Rightarrow> 'a list" where
  "jsSort cmp xs = foldr (insertBy cmp) xs []"



text \<open>Stack frames. An event with a stack and no stack frame makes the code call
  \<^verbatim>\<open>this.model_.resolveStackToStackFrame_\<close>. \<^verbatim>\<open>Model\<close> (model/model.js) has no
  property of that name, so the call throws a \<^verbatim>\<open>TypeError\<close>. (The method of that
  name is the importer's own; it returns \<^verbatim>\<open>undefined\<close> and nothing calls it.) The
  key \<^verbatim>\<open>'g' + sf\<close> is never a name that the dictionary of stack frames inherits.\<close>

definition getStackFrameForEvent ::
  "event \<Rightarrow> bool \<Rightarrow> model \<Rightarrow> error + string option \<times> model" where
  "getStackFrameForEvent event opt_lookForEndEvent m =
     (let sf = (if opt_lookForEndEvent then ev_esf event else ev_sf event);
          stack = (if opt_lookForEndEvent then ev_estack event else ev_stack event)
      in if stack \<noteq> Undefined \<and> sf \<noteq> None then
           Inr (None,
                importWarning
                  \<lparr> w_type = ''stack_frame_and_stack_error'',
                    w_message = [JStr ''Event at '', JNum (ev_ts event),
                                 JStr '' cannot have both a stack and a stackframe.''] \<rparr> m)
         else if stack \<noteq> Undefined then Inl TypeError
         else
           (case sf of
              None \<Rightarrow> Inr (None, m)
            | Some f \<Rightarrow>
                (case map_of (m_stackFrames m) (''g'' @ f) of
                   None \<Rightarrow>
                     Inr (None,
                          importWarning
                            \<lparr> w_type = ''sample_import_error'',
                              w_message = [JStr ''No frame for '', JStr f] \<rparr> m)
                 | Some frame \<Rightarrow> Inr (Some (''g'' @ f), m))))"

text \<open>The events on which the lookup reaches that call: \<open>stackThrows event False\<close>
  for the start frame, \<open>stackThrows event True\<close> for the end frame.\<close>

definition stackThrows :: "event \<Rightarrow> bool \<Rightarrow> bool" where
  "stackThrows event opt_lookForEndEvent =
     (if opt_lookForEndEvent then ev_estack event \<noteq> Undefined \<and> ev_esf event = None
      else ev_stack event \<noteq> Undefined \<and> ev_sf event = None)"

text \<open>\<^verbatim>\<open>mergeArgsInto_\<close>. The test \<^verbatim>\<open>dstArgs[arg] !== undefined\<close> also holds for a
  name that \<^verbatim>\<open>dstArgs\<close> inherits, such as \<^verbatim>\<open>toString\<close>. The assignment
  \<^verbatim>\<open>dstArgs[arg] = ...\<close> under the name \<^verbatim>\<open>__proto__\<close>, when it is not an own
  property, writes nothing for a value that is neither an object nor \<^verbatim>\<open>null\<close>, and
  replaces the prototype of \<^verbatim>\<open>dstArgs\<close> otherwise (\<open>Unmodelled\<close>).\<close>

fun mergeArgsInto ::
  "args \<Rightarrow> args \<Rightarrow> string option \<Rightarrow> model \<Rightarrow> error + args \<times> model" where
  "mergeArgsInto dstArgs [] eventName m = Inr (dstArgs, m)"
| "mergeArgsInto dstArgs ((arg, v) # srcArgs) eventName m =
     (let m1 =
            (if (case propRead dstArgs arg of
                   Own old \<Rightarrow> old \<noteq> Undefined
                 | Inherited k \<Rightarrow> True
                 | Missing \<Rightarrow> False)
             then importWarning
                    \<lparr> w_type = ''arg_merge_error'',
                      w_message = [JStr ''Different phases of '', optStr eventName,
                                   JStr '' provided values for argument '', JStr arg,
                                   JStr ''. The last provided value will be used.''] \<rparr> m
             else m)
      in if arg = ''__proto__'' \<and> map_of dstArgs arg = None then
           (if isObjectOrNull v then Inl Unmodelled
            else mergeArgsInto dstArgs srcArgs eventName m1)
         else mergeArgsInto (dictPut arg v dstArgs) srcArgs eventName m1)"

definition updateSlice :: "threadRef \<Rightarrow> nat \<Rightarrow> (slice \<Rightarrow> slice) \<Rightarrow> model \<Rightarrow> model" where
  "updateSlice r i f m =
     (let t = getThread m r; g = th_sliceGroup t
      in setThread r (t\<lparr> th_sliceGroup := g\<lparr> sg_slices := (sg_slices g)[i := f (sg_slices g ! i)] \<rparr> \<rparr>) m)"

definition setSliceGroup :: "threadRef \<Rightarrow> sliceGroup \<Rightarrow> model \<Rightarrow> model" where
  "setSliceGroup r g m = setThread r ((getThread m r)\<lparr> th_sliceGroup := g \<rparr>) m"

definition processDurationEvent :: "event \<Rightarrow> importer \<Rightarrow> error + importer" where
  "processDurationEvent event imp =
     (let m = getOrCreateProcessThread (ev_pid event) (ev_tid event) (model_of imp);
          r = (ev_pid event, ev_tid event);
          g = th_sliceGroup (getThread m r);
          ts = timestampFromUs (ev_ts event)
      in if \<not> isTimestampValidForBeginOrEnd g ts then
           Inr (imp\<lparr> model_of :=
                  importWarning
                    \<lparr> w_type = ''duration_parse_error'',
                      w_message = [JStr ''Timestamps are moving backward.''] \<rparr> m \<rparr>)
         else if ev_ph event = ''B'' then
           (let (g1, i) = beginSlice g (ev_cat event) (ev_name event)
                            (timestampFromUs (ev_ts event)) (deepCopyIfNeeded (ev_args event))
                            (maybeTimestampFromUs (ev_tts event)) (ev_argsStripped event)
                            (getEventColor event None);
                m1 = setSliceGroup r g1 m
            in bindE (getStackFrameForEvent event False m1)
                 (\<lambda>(frame, m2).
                    Inr (imp\<lparr> model_of :=
                           updateSlice r i (\<lambda>sl. sl\<lparr> sl_startStackFrame := frame \<rparr>) m2 \<rparr>)))
         else if ev_ph event = ''I'' \<or> ev_ph event = ''i'' \<or> ev_ph event = ''R'' then
           (if ev_s event \<noteq> None \<and> ev_s event \<noteq> Some ''t'' then
              Inl (Error ''This should never happen'')
            else
              (let (g1, i) = beginSlice g (ev_cat event) (ev_name event)
                               (timestampFromUs (ev_ts event))
                               (deepCopyIfNeeded (ev_args event))
                               (maybeTimestampFromUs (ev_tts event)) (ev_argsStripped event)
                               (getEventColor event None)
               in case endSlice g1 (timestampFromUs (ev_ts event))
                         (maybeTimestampFromUs (ev_tts event)) of
                    Inl e \<Rightarrow> Inl e
                  | Inr (g2, j) \<Rightarrow>
                      (let m1 = setSliceGroup r g2 m
                       in bindE (getStackFrameForEvent event False m1)
                            (\<lambda>(frame, m2).
                               Inr (imp\<lparr> model_of :=
                                      updateSlice r j
                                        (\<lambda>sl. sl\<lparr> sl_startStackFrame := frame,
                                                   sl_endStackFrame := None \<rparr>) m2 \<rparr>)))))
         else if openSliceCount g = 0 then
           Inr (imp\<lparr> model_of :=
                  importWarning
                    \<lparr> w_type = ''duration_parse_error'',
                      w_message = [JStr ''E phase event without a matching B phase event.''] \<rparr>
                    m \<rparr>)
         else
           (case endSlice g (timestampFromUs (ev_ts event))
                   (maybeTimestampFromUs (ev_tts event)) of
              Inl e \<Rightarrow> Inl e
            | Inr (g1, i) \<Rightarrow>
                (let m1 = setSliceGroup r g1 m;
                     title = sl_title (sg_slices g1 ! i);
                     m2 = (if strTruthy (ev_name event) \<and> title \<noteq> ev_name event then
                             importWarning
                               \<lparr> w_type = ''title_match_error'',
                                 w_message = [JStr ''Titles do not match. Title is '',
                                              optStr title, JStr '' in openSlice, and is '',
                                              optStr (ev_name event),
                                              JStr '' in endSlice''] \<rparr> m1
                           else m1)
                 in bindE (getStackFrameForEvent event False m2)
                      (\<lambda>(frame, m3).
                         (let m4 = updateSlice r i (\<lambda>sl. sl\<lparr> sl_endStackFrame := frame \<rparr>) m3
                          in bindE (mergeArgsInto (sl_args (sg_slices g1 ! i))
                                      (case ev_args event of None \<Rightarrow> [] | Some a \<Rightarrow> a)
                                      title m4)
                               (\<lambda>(args', m5).
                                  Inr (imp\<lparr> model_of :=
                                         updateSlice r i (\<lambda>sl. sl\<lparr> sl_args := args' \<rparr>)
                                           m5 \<rparr>)))))))"

text \<open>\<^verbatim>\<open>processCompleteEvent\<close> writes \<^verbatim>\<open>flowPhase\<close> into the event and returns the
  slice: the result is the importer, the event as it is left, and the position of the
  slice in its thread's slice group (\<open>None\<close> for \<^verbatim>\<open>undefined\<close>). The two stack
  frames are looked up after the slice is pushed; either lookup may throw.\<close>

definition processCompleteEvent ::
  "event \<Rightarrow> importer \<Rightarrow> error + importer \<times> event \<times> nat option" where
  "processCompleteEvent event imp =
     (if (case ev_cat event of None \<Rightarrow> False | Some c \<Rightarrow> contains c ''trace_event_overhead'')
      then Inr (imp, event, None)
      else
        (let m = getOrCreateProcessThread (ev_pid event) (ev_tid event) (model_of imp);
             r = (ev_pid event, ev_tid event);
             event1 =
               (if truthy (ev_flow_out event) then
                  (if truthy (ev_flow_in event) then event\<lparr> ev_flowPhase := Some STEP \<rparr>
                   else event\<lparr> ev_flowPhase := Some PRODUCER \<rparr>)
                else if truthy (ev_flow_in event) then event\<lparr> ev_flowPhase := Some CONSUMER \<rparr>
                else event);
             (g1, i) = pushCompleteSlice (th_sliceGroup (getThread m r)) (ev_cat event1)
                         (ev_name event1) (timestampFromUs (ev_ts event1))
                         (maybeTimestampFromUs (ev_dur event1))
                         (maybeTimestampFromUs (ev_tts event1))
                         (maybeTimestampFromUs (ev_tdur event1))
                         (deepCopyIfNeeded (ev_args event1)) (ev_argsStripped event1)
                         (getEventColor event1 None) (ev_bind_id event1);
             m1 = setSliceGroup r g1 m
         in bindE (getStackFrameForEvent event1 False m1)
              (\<lambda>(startFrame, m2).
                 (let m3 = updateSlice r i (\<lambda>sl. sl\<lparr> sl_startStackFrame := startFrame \<rparr>) m2
                  in bindE (getStackFrameForEvent event1 True m3)
                       (\<lambda>(endFrame, m4).
                          Inr (imp\<lparr> model_of :=
                                 updateSlice r i (\<lambda>sl. sl\<lparr> sl_endStackFrame := endFrame \<rparr>)
                                   m4 \<rparr>,
                               event1, Some i))))))"


text \<open>\<^verbatim>\<open>processJitCodeEvent\<close> works on the importer's V8 code maps
  (\<^verbatim>\<open>TraceCodeMap\<close>, not under src/); it is a parameter here.\<close>

definition processInstantEvent ::
  "(event \<Rightarrow> importer \<Rightarrow> error + importer) \<Rightarrow> event \<Rightarrow> importer \<Rightarrow> error + importer" where
  "processInstantEvent processJitCodeEvent event imp =
     (if ev_name event = Some ''JitCodeAdded'' \<or> ev_name event = Some ''JitCodeMoved'' then
        processJitCodeEvent event imp
      else if ev_s event = Some ''t'' \<or> ev_s event = None then
        processDurationEvent event imp
      else if ev_s event = Some ''g'' then
        Inr (imp\<lparr> model_of :=
               (model_of imp)\<lparr> m_instantEvents := m_instantEvents (model_of imp) @
                  [\<lparr> ie_category = ev_cat event, ie_title = ev_name event,
                     ie_colorId = getEventColor event None,
                     ie_start = timestampFromUs (ev_ts event),
                     ie_args = deepCopyIfNeeded (ev_args event) \<rparr>] \<rparr> \<rparr>)
      else if ev_s event = Some ''p'' then
        (let m = getOrCreateProcess (ev_pid event) (model_of imp);
             p = getProcess m (ev_pid event)
         in Inr (imp\<lparr> model_of :=
                   setProcess (ev_pid event)
                     (p\<lparr> pr_instantEvents := pr_instantEvents p @
                          [\<lparr> ie_category = ev_cat event, ie_title = ev_name event,
                             ie_colorId = getEventColor event None,
                             ie_start = timestampFromUs (ev_ts event),
                             ie_args = deepCopyIfNeeded (ev_args event) \<rparr>] \<rparr>) m \<rparr>))
      else
        Inr (imp\<lparr> model_of :=
               importWarning
                 \<lparr> w_type = ''instant_parse_error'',
                   w_message = [JStr ''I phase event with unknown \"s\" field value.''] \<rparr>
                 (model_of imp) \<rparr>))"

section \<open>Counter events\<close>

text \<open>The string that JavaScript makes of a possibly undefined string, in a
  concatenation or as a property key.\<close>

definition strOf :: "string option \<Rightarrow> string" where
  "strOf x = (case x of None \<Rightarrow> ''undefined'' | Some s \<Rightarrow> s)"

text \<open>Modelled from the spec: \<^verbatim>\<open>Process.getOrCreateCounter\<close> (model/process.js, not
  under src/). The specification (data model) has a process own its counters "keyed by
  (category,name)" and create them on first reference. How the pair is written as a
  property key is not in the specification: \<open>counterId\<close>, the key of a category and
  a name, is a parameter.\<close>

definition newCounter :: "string \<Rightarrow> string option \<Rightarrow> string option \<Rightarrow> counter" where
  "newCounter ident category name =
     \<lparr> ctr_id = ident, ctr_category = category, ctr_name = name, ctr_series = [] \<rparr>"

definition getOrCreateCounter ::
  "(string option \<Rightarrow> string option \<Rightarrow> string) \<Rightarrow> string option \<Rightarrow> string option \<Rightarrow>
   process \<Rightarrow> process" where
  "getOrCreateCounter counterId cat name p =
     (case map_of (pr_counters p) (counterId cat name) of
        Some ctr \<Rightarrow> p
      | None \<Rightarrow>
          p\<lparr> pr_counters :=
               dictPut (counterId cat name) (newCounter (counterId cat name) cat name)
                 (pr_counters p) \<rparr>)"

definition sampleValue :: "args \<Rightarrow> string \<Rightarrow> jsval" where
  "sampleValue a seriesName =
     (case map_of a seriesName of
        Some v \<Rightarrow> if truthy v then v else JNum 0
      | None \<Rightarrow> JNum 0)"

text \<open>\<open>ctrName\<close> is the local \<^verbatim>\<open>ctr_name\<close>. The counter is the one filed under
  \<open>counterId cat ctrName\<close>; the code holds a
  reference to it, the model reads and writes the dictionary entry.\<close>

definition processCounterEvent ::
  "(string option \<Rightarrow> string option \<Rightarrow> string) \<Rightarrow> event \<Rightarrow> importer \<Rightarrow> error + importer" where
  "processCounterEvent counterId event imp =
     (let ctrName =
            (case ev_id event of
               Some i \<Rightarrow> Some (strOf (ev_name event) @ ''['' @ i @ '']'')
             | None \<Rightarrow> ev_name event);
          m = getOrCreateProcess (ev_pid event) (model_of imp);
          p = getOrCreateCounter counterId (ev_cat event) ctrName (getProcess m (ev_pid event));
          key = counterId (ev_cat event) ctrName;
          ctr = (case map_of (pr_counters p) key of
                   Some c \<Rightarrow> c
                 | None \<Rightarrow> newCounter key (ev_cat event) ctrName);
          reservedColorId =
            (if strTruthy (ev_cname event) then getEventColor event None else None);
          ctr1 =
            (if numSeries ctr = 0 then
               foldl
                 (\<lambda>c seriesName.
                    addSeries
                      (newCounterSeries seriesName
                         (case reservedColorId of
                            Some colorId \<Rightarrow> Some colorId
                          | None \<Rightarrow>
                              getEventColor event
                                (Some (strOf (ctr_name c) @ ''.'' @ seriesName))))
                      c)
                 ctr
                 (map fst (case ev_args event of None \<Rightarrow> [] | Some a \<Rightarrow> a))
             else ctr)
      in if numSeries ctr1 = 0 then
           Inr (imp\<lparr> model_of :=
                  setProcess (ev_pid event)
                    (p\<lparr> pr_counters := dictDelete (strOf (ctr_name ctr1)) (pr_counters p) \<rparr>)
                    (importWarning
                       \<lparr> w_type = ''counter_parse_error'',
                         w_message = [JStr ''Expected counter '', optStr (ev_name event),
                                      JStr '' to have at least one argument to use as a value.''] \<rparr>
                       m) \<rparr>)
         else
           (case ev_args event of
              None \<Rightarrow> Inl TypeError
            | Some a \<Rightarrow>
                (let ts = timestampFromUs (ev_ts event);
                     ctr2 = ctr1\<lparr> ctr_series :=
                              map (\<lambda>series.
                                     addCounterSample ts (sampleValue a (cs_name series)) series)
                                (ctr_series ctr1) \<rparr>
                 in Inr (imp\<lparr> model_of :=
                           setProcess (ev_pid event)
                             (p\<lparr> pr_counters := dictPut key ctr2 (pr_counters p) \<rparr>) m \<rparr>))))"

section \<open>Memory dumps: edges between memory allocator dumps\<close>



















section \<open>Flow events\<close>

text \<open>
  \<^verbatim>\<open>createFlowSlices_\<close>. The two lookups of \<^verbatim>\<open>SliceGroup\<close>
  (model/slice_group.js, not under src/) are parameters: \<open>findSliceAtTs g ts\<close> is
  the position in the group of the slice that contains \<open>ts\<close>, and
  \<open>findNextSliceAfter g ts refGuid\<close> that of the next slice after \<open>ts\<close>;
  \<open>None\<close> stands for \<^verbatim>\<open>undefined\<close>.

  The three dictionaries of the function are plain objects. \<open>fs_flowIdToEvent\<close>
  holds the own properties of \<^verbatim>\<open>flowIdToEvent\<close>: the position of a flow event, or
  \<open>None\<close> for a property that was set to \<^verbatim>\<open>undefined\<close>. The key of a
  \<^verbatim>\<open>bind_id\<close> is its string, \<open>jsToString numberToString\<close>. The keys of
  \<^verbatim>\<open>sliceGuidToEvent\<close> are the GUIDs of slices, which are numbers, and never a
  name that the object inherits.
\<close>

record finders =
  findSliceAtTs :: "sliceGroup \<Rightarrow> rat \<Rightarrow> nat option"
  findNextSliceAfter :: "sliceGroup \<Rightarrow> rat \<Rightarrow> nat \<Rightarrow> nat option"

record flowState =
  fs_model :: model
  fs_flowIdToEvent :: "(string \<times> nat option) list"
  fs_sliceGuidToEvent :: "(sliceRef \<times> event) list"
  fs_flowStatus :: "(string \<times> bool) list"

text \<open>What \<^verbatim>\<open>flowIdToEvent[key]\<close> yields when it is not \<^verbatim>\<open>undefined\<close>: a flow
  event, by its position, or the built-in object under an inherited name.\<close>

datatype flowRef = FlowObj nat | BuiltinFlow string

definition readFlow :: "(string \<times> nat option) list \<Rightarrow> string \<Rightarrow> flowRef option" where
  "readFlow d k =
     (case propRead d k of
        Own (Some pos) \<Rightarrow> Some (FlowObj pos)
      | Own None \<Rightarrow> None
      | Inherited name \<Rightarrow> Some (BuiltinFlow name)
      | Missing \<Rightarrow> None)"

text \<open>\<^verbatim>\<open>flowIdToEvent[key] = value\<close> and \<^verbatim>\<open>flowStatus[key] = value\<close>. The key
  \<^verbatim>\<open>__proto__\<close> is never an own property of either object.\<close>

definition assignFlow ::
  "string \<Rightarrow> nat option \<Rightarrow> (string \<times> nat option) list \<Rightarrow> error + (string \<times> nat option) list" where
  "assignFlow k v d =
     (if k = ''__proto__'' then (case v of None \<Rightarrow> Inr d | Some pos \<Rightarrow> Inl Unmodelled)
      else Inr (dictPut k v d))"

definition assignStatus :: "string \<Rightarrow> bool \<Rightarrow> (string \<times> bool) list \<Rightarrow> (string \<times> bool) list" where
  "assignStatus k b d = (if k = ''__proto__'' then d else dictPut k b d)"

definition statusTruthy :: "(string \<times> bool) list \<Rightarrow> string \<Rightarrow> bool" where
  "statusTruthy d k =
     (case propRead d k of Own b \<Rightarrow> b | Inherited name \<Rightarrow> True | Missing \<Rightarrow> False)"

definition validateFlowEvent :: "event \<Rightarrow> model \<Rightarrow> bool \<times> model" where
  "validateFlowEvent event m =
     (if ev_name event = None then
        (False,
         importWarning
           \<lparr> w_type = ''flow_slice_parse_error'',
             w_message = [JStr ''Flow events (ph: s, t or f) require a name parameter.''] \<rparr> m)
      else if ev_ph event = ''s'' \<or> ev_ph event = ''f'' \<or> ev_ph event = ''t'' then
        (if ev_id event = None then
           (False,
            importWarning
              \<lparr> w_type = ''flow_slice_parse_error'',
                w_message = [JStr ''Flow events (ph: s, t or f) require an id parameter.''] \<rparr> m)
         else (True, m))
      else if truthy (ev_bind_id event) then
        (if ev_flow_in event = Undefined \<and> ev_flow_out event = Undefined then
           (False,
            importWarning
              \<lparr> w_type = ''flow_slice_parse_error'',
                w_message = [JStr ''Flow producer or consumer require flow_in or flow_out.''] \<rparr>
              m)
         else (True, m))
      else (False, m))"

text \<open>The result is the position of the new flow event among the flow event objects,
  or \<open>None\<close> for \<^verbatim>\<open>undefined\<close>. With a \<^verbatim>\<open>bind_id\<close> the thread is not
  looked at.\<close>

definition createFlowEvent ::
  "finders \<Rightarrow> threadRef option \<Rightarrow> event \<Rightarrow> sliceRef option \<Rightarrow> model \<Rightarrow>
   error + nat option \<times> model" where
  "createFlowEvent fnd thread event opt_slice m =
     (let v2 = truthy (ev_bind_id event);
          ts = timestampFromUs (ev_ts event);
          startSlice =
            (if v2 then opt_slice
             else case thread of
                    None \<Rightarrow> None
                  | Some r \<Rightarrow>
                      map_option (\<lambda>i. (r, i))
                        (findSliceAtTs fnd (th_sliceGroup (getThread m r)) ts))
      in if \<not> v2 \<and> thread = None then Inl TypeError
         else if \<not> v2 \<and> startSlice = None then Inr (None, m)
         else
           (let flowId = (if v2 then ev_bind_id event else optStr (ev_id event));
                flowStartTs =
                  (if v2 then map_option (\<lambda>dur. timestampFromUs (ev_ts event + dur)) (ev_dur event)
                   else Some ts)
            in bindE (getStackFrameForEvent event False m)
                 (\<lambda>(frame, m1).
                    (let flowEvent =
                           \<lparr> fe_category = ev_cat event, fe_id = flowId,
                             fe_title = ev_name event,
                             fe_colorId = getEventColor event None, fe_start = flowStartTs,
                             fe_args = deepCopyIfNeeded (ev_args event),
                             fe_startSlice = startSlice, fe_endSlice = None,
                             fe_duration = None, fe_startStackFrame = frame,
                             fe_endStackFrame = None \<rparr>;
                         pos = length (m_flowEventObjects m1)
                     in case startSlice of
                          None \<Rightarrow> Inl TypeError
                        | Some (r, i) \<Rightarrow>
                            Inr (Some pos,
                                 updateSlice r i
                                   (\<lambda>sl. sl\<lparr> sl_outFlowEvents := sl_outFlowEvents sl @ [pos] \<rparr>)
                                   (m1\<lparr> m_flowEventObjects :=
                                          m_flowEventObjects m1 @ [flowEvent] \<rparr>))))))"

definition updateFlowEvent :: "nat \<Rightarrow> (flowEvent \<Rightarrow> flowEvent) \<Rightarrow> model \<Rightarrow> model" where
  "updateFlowEvent pos f m =
     m\<lparr> m_flowEventObjects := (m_flowEventObjects m)[pos := f (m_flowEventObjects m ! pos)] \<rparr>"

text \<open>\<^verbatim>\<open>finishFlowEventWith\<close>. Once the end slice is there, the code pushes the flow
  event onto the slice's incoming flow events and writes into the flow event; with a
  built-in object in the place of the flow event the embedding stops.\<close>

definition finishFlowEventWith ::
  "finders \<Rightarrow> flowRef \<Rightarrow> threadRef option \<Rightarrow> event \<Rightarrow> nat \<Rightarrow> bool \<Rightarrow> sliceRef option \<Rightarrow>
   model \<Rightarrow> error + bool \<times> model" where
  "finishFlowEventWith fnd flowEvent thread event refGuid bindToParent opt_slice m =
     (let ts = timestampFromUs (ev_ts event);
          endSlice =
            (if truthy (ev_bind_id event) then opt_slice
             else case thread of
                    None \<Rightarrow> None
                  | Some r \<Rightarrow>
                      (if bindToParent then
                         map_option (\<lambda>i. (r, i))
                           (findSliceAtTs fnd (th_sliceGroup (getThread m r)) ts)
                       else
                         map_option (\<lambda>i. (r, i))
                           (findNextSliceAfter fnd (th_sliceGroup (getThread m r)) ts refGuid)))
      in case endSlice of
           None \<Rightarrow>
             (if truthy (ev_bind_id event) \<or> thread = None then Inl TypeError
              else Inr (False, m))
         | Some (r, i) \<Rightarrow>
             (case flowEvent of
                BuiltinFlow name \<Rightarrow> Inl Unmodelled
              | FlowObj pos \<Rightarrow>
                  (let m1 = updateSlice r i
                              (\<lambda>sl. sl\<lparr> sl_inFlowEvents := sl_inFlowEvents sl @ [pos] \<rparr>) m;
                       m2 = updateFlowEvent pos
                              (\<lambda>fe. fe\<lparr> fe_endSlice := Some (r, i),
                                         fe_duration :=
                                           map_option (\<lambda>start. ts - start) (fe_start fe) \<rparr>)
                              m1
                   in bindE (getStackFrameForEvent event False m2)
                        (\<lambda>(frame, m3).
                           (let m4 = updateFlowEvent pos
                                       (\<lambda>fe. fe\<lparr> fe_endStackFrame := frame \<rparr>) m3;
                                fe = m_flowEventObjects m4 ! pos
                            in bindE (mergeArgsInto (fe_args fe)
                                        (case ev_args event of None \<Rightarrow> [] | Some a \<Rightarrow> a)
                                        (fe_title fe) m4)
                                 (\<lambda>(args', m5).
                                    Inr (True,
                                         updateFlowEvent pos
                                           (\<lambda>fe. fe\<lparr> fe_args := args' \<rparr>) m5)))))))"

text \<open>\<^verbatim>\<open>processFlowConsumer\<close> and \<^verbatim>\<open>processFlowProducer\<close> return whether their result
  is truthy. \<^verbatim>\<open>processFlowProducer\<close> ends, when it has made the flow event, in a bare
  \<^verbatim>\<open>return;\<close>: its result is then \<^verbatim>\<open>undefined\<close>, which is not truthy. A
  built-in object has no \<^verbatim>\<open>endSlice\<close>.\<close>

definition processFlowConsumer ::
  "(rat \<Rightarrow> string) \<Rightarrow> finders \<Rightarrow> nat \<Rightarrow> event \<Rightarrow> sliceRef option \<Rightarrow> flowState \<Rightarrow>
   error + bool \<times> flowState" where
  "processFlowConsumer numberToString fnd refGuid event slice st =
     (case readFlow (fs_flowIdToEvent st) (jsToString numberToString (ev_bind_id event)) of
        None \<Rightarrow>
          Inr (False,
               st\<lparr> fs_model :=
                     importWarning
                       \<lparr> w_type = ''flow_slice_ordering_error'',
                         w_message = [JStr ''Flow consumer '', ev_bind_id event,
                                      JStr '' does not have a flow producer''] \<rparr>
                       (fs_model st) \<rparr>)
      | Some flowEvent0 \<Rightarrow>
          bindE
            (case flowEvent0 of
               BuiltinFlow name \<Rightarrow> Inr (Some flowEvent0, fs_model st)
             | FlowObj pos0 \<Rightarrow>
                 (if fe_endSlice (m_flowEventObjects (fs_model st) ! pos0) \<noteq> None then
                    (let flowProducer = fe_startSlice (m_flowEventObjects (fs_model st) ! pos0)
                     in case flowProducer of
                          None \<Rightarrow> Inl TypeError
                        | Some producerSlice \<Rightarrow>
                            (case map_of (fs_sliceGuidToEvent st) producerSlice of
                               None \<Rightarrow> Inl TypeError
                             | Some producerEvent \<Rightarrow>
                                 bindE (createFlowEvent fnd None producerEvent flowProducer
                                          (fs_model st))
                                   (\<lambda>(created, m1). Inr (map_option FlowObj created, m1))))
                  else Inr (Some flowEvent0, fs_model st)))
            (\<lambda>(created, m1).
               case created of
                 None \<Rightarrow> Inl TypeError
               | Some flowEvent \<Rightarrow>
                   bindE (finishFlowEventWith fnd flowEvent None event refGuid False slice m1)
                     (\<lambda>(ok, m2).
                        if ok then
                          (case flowEvent of
                             BuiltinFlow name \<Rightarrow> Inl Unmodelled
                           | FlowObj pos \<Rightarrow>
                               Inr (True,
                                    st\<lparr> fs_model :=
                                          m2\<lparr> m_flowEvents := m_flowEvents m2 @ [pos] \<rparr> \<rparr>))
                        else
                          Inr (False,
                               st\<lparr> fs_model :=
                                     importWarning
                                       \<lparr> w_type = ''flow_slice_end_error'',
                                         w_message =
                                           [JStr ''Flow consumer '', ev_bind_id event,
                                            JStr '' does not end at an actual slice, so cannot be created.''] \<rparr>
                                       m2 \<rparr>))))"

definition processFlowProducer ::
  "(rat \<Rightarrow> string) \<Rightarrow> finders \<Rightarrow> event \<Rightarrow> sliceRef option \<Rightarrow> flowState \<Rightarrow>
   error + bool \<times> flowState" where
  "processFlowProducer numberToString fnd event slice st =
     (let key = jsToString numberToString (ev_bind_id event)
      in if readFlow (fs_flowIdToEvent st) key \<noteq> None \<and> statusTruthy (fs_flowStatus st) key then
           Inr (False,
                st\<lparr> fs_model :=
                      importWarning
                        \<lparr> w_type = ''flow_slice_start_error'',
                          w_message = [JStr ''Flow producer '', ev_bind_id event,
                                       JStr '' already seen''] \<rparr>
                        (fs_model st) \<rparr>)
         else
           bindE (createFlowEvent fnd None event slice (fs_model st))
             (\<lambda>(created, m1).
                case created of
                  None \<Rightarrow>
                    Inr (False,
                         st\<lparr> fs_model :=
                               importWarning
                                 \<lparr> w_type = ''flow_slice_start_error'',
                                   w_message = [JStr ''Flow producer '', ev_bind_id event,
                                                JStr '' does not starta flow''] \<rparr>
                                 m1 \<rparr>)
                | Some flowEvent \<Rightarrow>
                    bindE (assignFlow key (Some flowEvent) (fs_flowIdToEvent st))
                      (\<lambda>d. Inr (False, st\<lparr> fs_model := m1, fs_flowIdToEvent := d \<rparr>))))"

text \<open>One round of the loop over the sorted flow queue.\<close>

definition flowStep ::
  "(rat \<Rightarrow> string) \<Rightarrow> finders \<Rightarrow> flowEventState \<Rightarrow> flowState \<Rightarrow> error + flowState" where
  "flowStep numberToString fnd data st =
     (let refGuid = fes_refGuid data; event = es_event data; thread = es_thread data;
          (valid, m0) = validateFlowEvent event (fs_model st);
          st0 = st\<lparr> fs_model := m0 \<rparr>
      in if \<not> valid then Inr st0
         else if truthy (ev_bind_id event) then
           (case fes_slice data of
              None \<Rightarrow> Inl TypeError
            | Some i \<Rightarrow>
                (let slice = (thread, i);
                     key = jsToString numberToString (ev_bind_id event);
                     st1 = st0\<lparr> fs_sliceGuidToEvent :=
                                 dictPut slice event (fs_sliceGuidToEvent st0) \<rparr>
                 in if ev_flowPhase event = Some PRODUCER then
                      bindE (processFlowProducer numberToString fnd event (Some slice) st1)
                        (\<lambda>(ok, st2).
                           if \<not> ok then Inr st2
                           else Inr (st2\<lparr> fs_flowStatus :=
                                      assignStatus key True (fs_flowStatus st2) \<rparr>))
                    else
                      bindE (processFlowConsumer numberToString fnd refGuid event (Some slice) st1)
                        (\<lambda>(ok, st2).
                           if \<not> ok then Inr st2
                           else
                             (let st3 = st2\<lparr> fs_flowStatus :=
                                          assignStatus key False (fs_flowStatus st2) \<rparr>
                              in if ev_flowPhase event = Some STEP then
                                   bindE (processFlowProducer numberToString fnd event
                                            (Some slice) st3)
                                     (\<lambda>(ok2, st4).
                                        if \<not> ok2 then Inr st4
                                        else Inr (st4\<lparr> fs_flowStatus :=
                                                   assignStatus key True (fs_flowStatus st4) \<rparr>))
                                 else Inr st3))))
         else if ev_ph event = ''s'' then
           (if readFlow (fs_flowIdToEvent st0) (strOf (ev_id event)) \<noteq> None then
              Inr (st0\<lparr> fs_model :=
                     importWarning
                       \<lparr> w_type = ''flow_slice_start_error'',
                         w_message = [JStr ''event id '', optStr (ev_id event),
                                      JStr '' already seen when encountering start of flow event.''] \<rparr>
                       m0 \<rparr>)
            else
              bindE (createFlowEvent fnd (Some thread) event None m0)
                (\<lambda>(created, m1).
                   case created of
                     None \<Rightarrow>
                       Inr (st0\<lparr> fs_model :=
                              importWarning
                                \<lparr> w_type = ''flow_slice_start_error'',
                                  w_message = [JStr ''event id '', optStr (ev_id event),
                                               JStr '' does not start at an actual slice, so cannot be created.''] \<rparr>
                                m1 \<rparr>)
                   | Some flowEvent \<Rightarrow>
                       bindE (assignFlow (strOf (ev_id event)) (Some flowEvent)
                                (fs_flowIdToEvent st0))
                         (\<lambda>d. Inr (st0\<lparr> fs_model := m1, fs_flowIdToEvent := d \<rparr>))))
         else if ev_ph event = ''t'' \<or> ev_ph event = ''f'' then
           (case readFlow (fs_flowIdToEvent st0) (strOf (ev_id event)) of
              None \<Rightarrow>
                Inr (st0\<lparr> fs_model :=
                       importWarning
                         \<lparr> w_type = ''flow_slice_ordering_error'',
                           w_message = [JStr ''Found flow phase '', JStr (ev_ph event),
                                        JStr '' for id: '', optStr (ev_id event),
                                        JStr '' but no flow start found.''] \<rparr>
                         m0 \<rparr>)
            | Some flowEvent \<Rightarrow>
                (if ev_ph event = ''f'' \<and> ev_bp event = Undefined \<and> ev_cat event = None then
                   Inl TypeError
                 else if ev_ph event = ''f'' \<and> ev_bp event \<noteq> Undefined
                         \<and> ev_bp event \<noteq> JStr ''e'' then
                   Inr (st0\<lparr> fs_model :=
                          importWarning
                            \<lparr> w_type = ''flow_slice_bind_point_error'',
                              w_message =
                                [JStr ''Flow event with invalid binding point (event.bp).''] \<rparr>
                            m0 \<rparr>)
                 else
                   (let bindToParent =
                          (ev_ph event = ''t''
                           \<or> (ev_ph event = ''f''
                              \<and> (if ev_bp event = Undefined then
                                    contains (strOf (ev_cat event)) ''input''
                                    \<or> contains (strOf (ev_cat event)) ''ipc.flow''
                                  else True)))
                    in bindE (finishFlowEventWith fnd flowEvent (Some thread) event refGuid
                                bindToParent None m0)
                         (\<lambda>(ok, m1).
                            bindE
                              (if ok then
                                 (case flowEvent of
                                    BuiltinFlow name \<Rightarrow> Inl Unmodelled
                                  | FlowObj pos \<Rightarrow>
                                      Inr (m1\<lparr> m_flowEvents := m_flowEvents m1 @ [pos] \<rparr>))
                               else
                                 Inr (importWarning
                                        \<lparr> w_type = ''flow_slice_end_error'',
                                          w_message =
                                            [JStr ''event id '', optStr (ev_id event),
                                             JStr '' does not end at an actual slice, so cannot be created.''] \<rparr>
                                        m1))
                              (\<lambda>m2.
                                 bindE (assignFlow (strOf (ev_id event)) None
                                          (fs_flowIdToEvent st0))
                                   (\<lambda>d.
                                      (let st1 = st0\<lparr> fs_model := m2, fs_flowIdToEvent := d \<rparr>
                                       in if ok \<and> ev_ph event = ''t'' then
                                            bindE (createFlowEvent fnd (Some thread) event
                                                     None m2)
                                              (\<lambda>(created, m3).
                                                 bindE (assignFlow (strOf (ev_id event))
                                                          created d)
                                                   (\<lambda>d'. Inr (st1\<lparr> fs_model := m3,
                                                                  fs_flowIdToEvent := d' \<rparr>)))
                                          else Inr st1)))))))
         else Inr st0)"



text \<open>A state of the loop in which the flow of id \<^verbatim>\<open>7\<close> is open: thread 1 of
  process 1 has a slice from 0 to 30 microseconds, in which the flow starts, and a slice
  from 40 to 50 microseconds. An event of phase \<^verbatim>\<open>f\<close> for that id at 20
  microseconds, with a given \<^verbatim>\<open>bp\<close> and category. The two lookups as they come
  out for that thread and that timestamp: the first slice contains it, the second is
  the next after it.\<close>

definition flowScenario :: flowState where
  "flowScenario =
     \<lparr> fs_model =
         (setSliceGroup (1, 1)
            (fst (pushCompleteSlice
                    (fst (pushCompleteSlice newSliceGroup (Some ''c'') (Some ''a'')
                            (timestampFromUs 0) (Some (timestampFromUs 30)) None None []
                            False None Undefined))
                    (Some ''c'') (Some ''b'') (timestampFromUs 40) (Some (timestampFromUs 10))
                    None None [] False None Undefined))
            (getOrCreateProcessThread 1 1 newModel))
         \<lparr> m_flowEventObjects :=
             [\<lparr> fe_category = Some ''input'', fe_id = JStr ''7'', fe_title = Some ''flow'',
                fe_colorId = None, fe_start = Some 0, fe_args = [],
                fe_startSlice = Some ((1, 1), 0), fe_endSlice = None, fe_duration = None,
                fe_startStackFrame = None, fe_endStackFrame = None \<rparr>] \<rparr>,
       fs_flowIdToEvent = [(''7'', Some 0)], fs_sliceGuidToEvent = [], fs_flowStatus = [] \<rparr>"

definition flowEndEvent :: "jsval \<Rightarrow> string option \<Rightarrow> flowEventState" where
  "flowEndEvent bp cat =
     \<lparr> es_sequenceNumber = 1,
       es_event = (mkEvent ''f'' 1 1 20)\<lparr> ev_cat := cat, ev_name := Some ''flow'',
                                          ev_id := Some ''7'', ev_bp := bp \<rparr>,
       es_thread = (1, 1), fes_refGuid = 0, fes_slice = None \<rparr>"

definition flowFinders :: finders where
  "flowFinders = \<lparr> findSliceAtTs = (\<lambda>g ts. Some 0),
                    findNextSliceAfter = (\<lambda>g ts refGuid. Some 1) \<rparr>"

section \<open>Object events\<close>










section \<open>Async slices\<close>

text \<open>Modelled from the spec: \<^verbatim>\<open>tr.b.concatenateObjects\<close> (base/utils.js, not under
  src/): the specification (4.5) calls the result the concatenation of the arguments'
  properties; a later object's value replaces an earlier one's.\<close>

definition concatenateObjects :: "args list \<Rightarrow> args" where
  "concatenateObjects objects =
     foldl (\<lambda>result object. foldl (\<lambda>res kv. dictPut (fst kv) (snd kv) res) result object)
       [] objects"

definition argsOf :: "event \<Rightarrow> args" where
  "argsOf event = (case ev_args event of None \<Rightarrow> [] | Some a \<Rightarrow> a)"

text \<open>Modelled from the spec: \<^verbatim>\<open>AsyncSliceGroup.push\<close> (model/async_slice_group.js,
  not under src/) appends the slice to the thread's async slices.\<close>

definition pushAsyncSlice :: "threadRef \<Rightarrow> asyncSlice \<Rightarrow> model \<Rightarrow> model" where
  "pushAsyncSlice r slice m =
     setThread r ((getThread m r)\<lparr> th_asyncSliceGroup :=
                     th_asyncSliceGroup (getThread m r) @ [slice] \<rparr>) m"

subsection \<open>Legacy async events (S, T, p, F)\<close>

definition assertStepTypeMatches :: "string \<Rightarrow> eventState \<Rightarrow> model \<Rightarrow> bool \<times> model" where
  "assertStepTypeMatches stepType event m =
     (if stepType \<noteq> ev_ph (es_event event) then
        (False,
         importWarning
           \<lparr> w_type = ''async_slice_parse_error'',
             w_message = [JStr ''At '', JNum (ev_ts (es_event event)), JStr '', a slice named '',
                          optStr (ev_name (es_event event)), JStr '' with id='',
                          optStr (ev_id (es_event event)),
                          JStr '' had both begin and end steps, which is not allowed.''] \<rparr> m)
      else (True, m))"

text \<open>The loop over the steps, \<^verbatim>\<open>for (var j = 1; j < events.length - 1; ++j)\<close>, as
  a recursion over the values of \<open>j\<close> that remain. The result is the sub-slices,
  \<^verbatim>\<open>isValid\<close> and the model. In the two branches for a start or finish event among the
  steps the code reads \<^verbatim>\<open>event.event.ts\<close> of a raw event, which throws.\<close>

fun subSliceLoop ::
  "(rat \<Rightarrow> string) \<Rightarrow> event \<Rightarrow> string \<Rightarrow> string \<Rightarrow> eventState list \<Rightarrow> nat list \<Rightarrow>
   asyncSlice list \<Rightarrow> model \<Rightarrow> error + asyncSlice list \<times> bool \<times> model" where
  "subSliceLoop numberToString event ident stepType events [] subs m = Inr (subs, True, m)"
| "subSliceLoop numberToString event ident stepType events (j # js) subs m =
     (let ej = events ! j;
          isStep = (ev_ph (es_event ej) = ''T'' \<or> ev_ph (es_event ej) = ''p'');
          (isValid, m1) = (if isStep then assertStepTypeMatches stepType ej m else (True, m))
      in if \<not> isValid then Inr (subs, False, m1)
         else if ev_ph (es_event ej) = ''S'' \<or> ev_ph (es_event ej) = ''F'' then Inl TypeError
         else if \<not> ev_argsStripped (es_event ej) \<and> isStep \<and> ev_args (es_event ej) = None then
           Inl TypeError
         else
           (let startIndex = (if stepType = ''T'' then j else j - 1);
                endIndex = startIndex + 1;
                subName =
                  (if \<not> ev_argsStripped (es_event ej) \<and> isStep then
                     strOf (ev_name (es_event ej)) @ '':'' @
                       jsToString numberToString
                         (case map_of (argsOf (es_event ej)) ''step'' of
                            None \<Rightarrow> Undefined
                          | Some v \<Rightarrow> v)
                   else strOf (ev_name (es_event ej)));
                subSlice =
                  (newAsyncSlice (ev_cat (es_event (events ! 0))) subName
                     (getEventColor event (Some (subName @ numberToString (rat_of_nat j))))
                     (timestampFromUs (ev_ts (es_event (events ! startIndex))))
                     (deepCopyIfNeeded (ev_args (es_event ej)))
                     (timestampFromUs
                        (ev_ts (es_event (events ! endIndex))
                         - ev_ts (es_event (events ! startIndex))))
                     None None
                     (if ev_argsStripped (es_event (events ! startIndex)) then JBool True
                      else Undefined)
                     False)
                    \<lparr> as_startThread := Some (es_thread (events ! startIndex)),
                      as_endThread := Some (es_thread (events ! endIndex)),
                      as_id := Some ident \<rparr>
            in subSliceLoop numberToString event ident stepType events js
                 (subs @ [AsyncSlice subSlice []]) m1))"

text \<open>\<^verbatim>\<open>asyncEventStatesByNameThenID\<close>: by name, then by id, the events of the open
  slice.\<close>

type_synonym statesByNameThenID = "(string \<times> (string \<times> eventState list) list) list"

text \<open>The body of \<^verbatim>\<open>if (event.ph === 'F')\<close>, for the events of the slice with the
  finish event at their end.\<close>

definition finishLegacySlice ::
  "(rat \<Rightarrow> string) \<Rightarrow> eventState \<Rightarrow> string \<Rightarrow> string \<Rightarrow> eventState list \<Rightarrow> model \<Rightarrow>
   error + model" where
  "finishLegacySlice numberToString asyncEventState name ident events m =
     (case events of
        e0 # e1 # rest \<Rightarrow>
          (let event = es_event asyncEventState;
               slice =
                 (newAsyncSlice (ev_cat (es_event e0)) name (getEventColor (es_event e0) None)
                    (timestampFromUs (ev_ts (es_event e0)))
                    (concatenateObjects [argsOf (es_event e0), argsOf (es_event (last events))])
                    (timestampFromUs (ev_ts event - ev_ts (es_event e0)))
                    (Some True) None Undefined (ev_argsStripped (es_event e0)))
                   \<lparr> as_startThread := Some (es_thread e0),
                     as_endThread := Some (es_thread asyncEventState),
                     as_id := Some ident \<rparr>;
               stepType = ev_ph (es_event e1)
           in bindE (subSliceLoop numberToString event ident stepType events
                       [1..<length events - 1] [] m)
                (\<lambda>(subs, isValid, m1).
                   if isValid then Inr (pushAsyncSlice (es_thread e0) (AsyncSlice slice subs) m1)
                   else Inr m1))
      | _ \<Rightarrow> Inl TypeError)"

definition legacyStep ::
  "(rat \<Rightarrow> string) \<Rightarrow> eventState \<Rightarrow> statesByNameThenID \<times> model \<Rightarrow>
   error + statesByNameThenID \<times> model" where
  "legacyStep numberToString asyncEventState st =
     (let byName = fst st; m = snd st; event = es_event asyncEventState
      in case ev_name event of
           None \<Rightarrow>
             Inr (byName,
                  importWarning
                    \<lparr> w_type = ''async_slice_parse_error'',
                      w_message =
                        [JStr ''Async events (ph: S, T, p, or F) require a name  parameter.''] \<rparr>
                    m)
         | Some name \<Rightarrow>
             (case ev_id event of
                None \<Rightarrow>
                  Inr (byName,
                       importWarning
                         \<lparr> w_type = ''async_slice_parse_error'',
                           w_message =
                             [JStr ''Async events (ph: S, T, p, or F) require an id parameter.''] \<rparr>
                         m)
              | Some ident \<Rightarrow>
                  (if ev_ph event = ''S'' then
                     (let byId = (case map_of byName name of None \<Rightarrow> [] | Some d \<Rightarrow> d)
                      in if map_of byId ident \<noteq> None then
                           Inr (dictPut name byId byName,
                                importWarning
                                  \<lparr> w_type = ''async_slice_parse_error'',
                                    w_message =
                                      [JStr ''At '', JNum (ev_ts event),
                                       JStr '', a slice of the same id '', JStr ident,
                                       JStr '' was alrady open.''] \<rparr> m)
                         else
                           Inr (dictPut name (dictPut ident [asyncEventState] byId) byName, m))
                   else
                     (case map_of byName name of
                        None \<Rightarrow>
                          Inr (byName,
                               importWarning
                                 \<lparr> w_type = ''async_slice_parse_error'',
                                   w_message =
                                     [JStr ''At '', JNum (ev_ts event),
                                      JStr '', no slice named '', JStr name,
                                      JStr '' was open.''] \<rparr> m)
                      | Some byId \<Rightarrow>
                          (case map_of byId ident of
                             None \<Rightarrow>
                               Inr (byName,
                                    importWarning
                                      \<lparr> w_type = ''async_slice_parse_error'',
                                        w_message =
                                          [JStr ''At '', JNum (ev_ts event),
                                           JStr '', no slice named '', JStr name,
                                           JStr '' with id='', JStr ident,
                                           JStr '' was open.''] \<rparr> m)
                           | Some events0 \<Rightarrow>
                               (let events = events0 @ [asyncEventState]
                                in if ev_ph event = ''F'' then
                                     bindE (finishLegacySlice numberToString asyncEventState
                                              name ident events m)
                                       (\<lambda>m1. Inr (dictPut name (dictDelete ident byId) byName,
                                                    m1))
                                   else
                                     Inr (dictPut name (dictPut ident events byId) byName,
                                          m)))))))"

fun legacyLoop ::
  "(rat \<Rightarrow> string) \<Rightarrow> eventState list \<Rightarrow> statesByNameThenID \<times> model \<Rightarrow>
   error + statesByNameThenID \<times> model" where
  "legacyLoop numberToString [] st = Inr st"
| "legacyLoop numberToString (s # rest) st =
     bindE (legacyStep numberToString s st) (legacyLoop numberToString rest)"

definition createLegacyAsyncSlices ::
  "(rat \<Rightarrow> string) \<Rightarrow> eventState list \<Rightarrow> model \<Rightarrow> error + model" where
  "createLegacyAsyncSlices numberToString legacyEvents m =
     (if legacyEvents = [] then Inr m
      else bindE (legacyLoop numberToString (jsSort compareEventStates legacyEvents) ([], m))
             (\<lambda>st. Inr (snd st)))"


text \<open>The scenario of the specification (8, scenario 4): a start event at 0 and a
  finish event at 10 microseconds, named \<^verbatim>\<open>q\<close> with id 7, on thread 1 of process 1,
  and between them, at 5 microseconds, a step event of phase \<open>stepPh\<close> with
  \<^verbatim>\<open>args.step = 'a'\<close>; \<open>legacyScenario\<close> is the importer after the dispatch of
  the three.\<close>

definition legacyScenario :: "string \<Rightarrow> importer" where
  "legacyScenario stepPh =
     foldl (\<lambda>imp e. processAsyncEvent e imp) (newImporter newModel)
       [(mkEvent ''S'' 1 1 0)\<lparr> ev_name := Some ''q'', ev_id := Some ''7'' \<rparr>,
        (mkEvent stepPh 1 1 5)\<lparr> ev_name := Some ''q'', ev_id := Some ''7'',
                                 ev_args := Some [(''step'', JStr ''a'')] \<rparr>,
        (mkEvent ''F'' 1 1 10)\<lparr> ev_name := Some ''q'', ev_id := Some ''7'' \<rparr>]"

subsection \<open>Nestable async events (b, n, e)\<close>

text \<open>What the first loop over the entries of a key writes into an entry:
  \<^verbatim>\<open>end\<close>, \<^verbatim>\<open>finished\<close> and \<^verbatim>\<open>parentEntry\<close>, the first and last as the
  position of the entry referred to. \<open>None\<close> stands for \<^verbatim>\<open>undefined\<close>.\<close>

record entryMarks =
  em_end :: "nat option"
  em_finished :: "bool option"
  em_parentEntry :: "nat option"

definition noMarks :: entryMarks where
  "noMarks = \<lparr> em_end = None, em_finished = None, em_parentEntry = None \<rparr>"

text \<open>The walk up the parent stack: the greatest \<open>k\<close> with the name of
  \<open>parentStack[k]\<close> equal to \<open>name\<close>.\<close>

definition findParentIndex :: "eventState list \<Rightarrow> nat list \<Rightarrow> string option \<Rightarrow> nat option" where
  "findParentIndex entries parentStack name =
     (case filter (\<lambda>k. ev_name (es_event (entries ! (parentStack ! k))) = name)
             (rev [0..<length parentStack]) of
        [] \<Rightarrow> None
      | k # _ \<Rightarrow> Some k)"

definition matchStep ::
  "eventState list \<Rightarrow> nat \<Rightarrow> entryMarks list \<times> nat list \<Rightarrow> entryMarks list \<times> nat list" where
  "matchStep entries i st =
     (let marks = fst st; parentStack = snd st;
          event = es_event (entries ! i);
          (marks1, parentStack1) =
            (if ev_ph event = ''e'' then
               (case findParentIndex entries parentStack (ev_name event) of
                  None \<Rightarrow> (marks[i := (marks ! i)\<lparr> em_finished := Some False \<rparr>], parentStack)
                | Some parentIndex \<Rightarrow>
                    (marks[parentStack ! parentIndex :=
                             (marks ! (parentStack ! parentIndex))\<lparr> em_end := Some i \<rparr>],
                     take parentIndex parentStack))
             else (marks, parentStack));
          marks2 =
            (if parentStack1 \<noteq> [] then
               marks1[i := (marks1 ! i)\<lparr> em_parentEntry := Some (last parentStack1) \<rparr>]
             else marks1);
          parentStack2 = (if ev_ph event = ''b'' then parentStack1 @ [i] else parentStack1)
      in (marks2, parentStack2))"

definition matchEntries :: "eventState list \<Rightarrow> entryMarks list" where
  "matchEntries entries =
     fst (foldl (\<lambda>st i. matchStep entries i st)
            (replicate (length entries) noMarks, []) [0..<length entries])"






















text \<open>For the proofs about the first loop: the marks and the parent stack after the
  block \<^verbatim>\<open>if (eventStateEntry.event.ph === 'e') { ... }\<close> of round \<open>k\<close>, and the
  invariant of the loop before round \<open>k\<close>. The parent stack holds positions of
  earlier begin entries; an \<^verbatim>\<open>end\<close> is a later end entry of the same name; an end
  entry with no begin entry of its name before it has \<^verbatim>\<open>finished = false\<close>; a
  \<^verbatim>\<open>parentEntry\<close> is an earlier begin entry.\<close>

definition marksAfterEnd :: "eventState list \<Rightarrow> nat \<Rightarrow> entryMarks list \<Rightarrow> nat list \<Rightarrow> entryMarks list" where
  "marksAfterEnd entries k marks stack =
     (if ev_ph (es_event (entries ! k)) = ''e'' then
        (case findParentIndex entries stack (ev_name (es_event (entries ! k))) of
           None \<Rightarrow> marks[k := (marks ! k)\<lparr> em_finished := Some False \<rparr>]
         | Some parentIndex \<Rightarrow>
             marks[stack ! parentIndex := (marks ! (stack ! parentIndex))\<lparr> em_end := Some k \<rparr>])
      else marks)"

definition stackAfterEnd :: "eventState list \<Rightarrow> nat \<Rightarrow> nat list \<Rightarrow> nat list" where
  "stackAfterEnd entries k stack =
     (if ev_ph (es_event (entries ! k)) = ''e'' then
        (case findParentIndex entries stack (ev_name (es_event (entries ! k))) of
           None \<Rightarrow> stack
         | Some parentIndex \<Rightarrow> take parentIndex stack)
      else stack)"

definition matchInv :: "eventState list \<Rightarrow> nat \<Rightarrow> entryMarks list \<times> nat list \<Rightarrow> bool" where
  "matchInv entries k st =
     (length (fst st) = length entries
      \<and> (\<forall>s \<in> set (snd st). s < k \<and> ev_ph (es_event (entries ! s)) = ''b'')
      \<and> (\<forall>j e. j < length entries \<and> em_end (fst st ! j) = Some e
            \<longrightarrow> j < e \<and> e < k \<and> ev_ph (es_event (entries ! e)) = ''e''
                \<and> ev_name (es_event (entries ! e)) = ev_name (es_event (entries ! j)))
      \<and> (\<forall>j. j < k \<and> ev_ph (es_event (entries ! j)) = ''e''
              \<and> (\<forall>b < j. ev_ph (es_event (entries ! b)) = ''b''
                     \<longrightarrow> ev_name (es_event (entries ! b)) \<noteq> ev_name (es_event (entries ! j)))
            \<longrightarrow> em_finished (fst st ! j) = Some False)
      \<and> (\<forall>j p. j < length entries \<and> em_parentEntry (fst st ! j) = Some p
            \<longrightarrow> p < j \<and> ev_ph (es_event (entries ! p)) = ''b''))"




section \<open>Properties\<close>

lemma startsWith_single: "startsWith s [p] = (case s of [] \<Rightarrow> False | c # _ \<Rightarrow> c = p)"
  by (cases s) simp_all

lemma canImport_string:
  "canImport (JStr s) = Inr (startsWith (trim s) ''{'' \<or> startsWith (trim s) ''['')"
  by (simp add: canImport_def startsWith_single split: list.splits)

lemma firstHasPh_Inr:
  "firstHasPh xs = Inr b \<Longrightarrow> b = isTruthyEventArray (JArr xs)"
  by (auto simp: firstHasPh_def isTruthyEventArray_def phTruthy_def bindE_def
      split: list.splits sum.splits)

lemma canImport_array:
  "canImport (JArr xs) = Inr b \<Longrightarrow> b = isTruthyEventArray (JArr xs)"
  by (auto simp: canImport_def bindE_def dest: firstHasPh_Inr split: sum.splits if_splits)

lemma canImport_object:
  "canImport (JObj kvs) = Inr b \<Longrightarrow> b = code_canImport (JObj kvs)"
  by (auto simp: canImport_def code_canImport_def bindE_def lengthTruthy_def
      dest: firstHasPh_Inr split: sum.splits if_splits option.splits jsval.splits)

text \<open>
  C2 (as amended). On every input on which \<^verbatim>\<open>canImport\<close> returns, it returns true
  exactly when the input is a string whose first character after trimming is an opening
  brace or bracket, or a non-empty array whose first element has a truthy \<^verbatim>\<open>ph\<close>,
  or an object whose \<^verbatim>\<open>traceEvents\<close> is an array that either is such an array or
  comes with a \<^verbatim>\<open>samples\<close> of truthy length and a defined \<^verbatim>\<open>stackFrames\<close>;
  on a string it always returns.
\<close>

theorem canImport_accepts:
  "(canImport v = Inr b \<longrightarrow> b = code_canImport v)
   \<and> (\<forall>s. v = JStr s \<longrightarrow> canImport v = Inr (code_canImport v))"
proof (cases v)
  case (JStr s)
  then show ?thesis by (simp add: canImport_string code_canImport_def)
next
  case (JArr xs)
  then show ?thesis using canImport_array [of xs b] by (simp add: code_canImport_def)
next
  case (JObj kvs)
  then show ?thesis using canImport_object [of kvs b] by simp
qed (auto simp: canImport_def code_canImport_def bindE_def)

theorem canImport_accepts_witness:
  "canImport (JObj [(''traceEvents'', JArr []), (''samples'', JArr [Null]),
                    (''stackFrames'', JObj [])]) = Inr True
   \<and> code_canImport (JObj [(''traceEvents'', JArr []), (''samples'', JArr [Null]),
                    (''stackFrames'', JObj [])])"
  using canImport_accepts
    [of "JObj [(''traceEvents'', JArr []), (''samples'', JArr [Null]),
               (''stackFrames'', JObj [])]" True]
  by (simp add: canImport_def firstHasPh_def bindE_def)

text \<open>The claim as stated fails: an object with \<^verbatim>\<open>samples\<close> and \<^verbatim>\<open>stackFrames\<close>
  but no \<^verbatim>\<open>traceEvents\<close> satisfies the specification's predicate and is
  rejected.\<close>

theorem canImport_samples_counterexample:
  "spec_canImport (JObj [(''samples'', JArr [JObj []]), (''stackFrames'', JObj [])])
   \<and> canImport (JObj [(''samples'', JArr [JObj []]), (''stackFrames'', JObj [])]) = Inr False"
  by (simp add: spec_canImport_def hasField_def canImport_def bindE_def)

text \<open>
  C10. When \<^verbatim>\<open>kernel.threads\<close> has at least one entry, \<^verbatim>\<open>getAllThreads\<close> throws
  a TypeError; when it is empty, the result is exactly the threads of all processes, in
  enumeration order.
\<close>

theorem getAllThreads_kernel_threads:
  "(kernelThreads \<noteq> [] \<longrightarrow> getAllThreads kernelThreads processes = Inl TypeError)
   \<and> (kernelThreads = [] \<longrightarrow>
        getAllThreads kernelThreads processes
          = Inr (concat (map (\<lambda>p. map snd (snd p)) processes)))"
  by (cases kernelThreads) (simp_all add: getAllThreads_def dictValues_def case_prod_unfold)

theorem getAllThreads_kernel_threads_witness:
  "getAllThreads [(0, ''swapper'')] [(1, [(2, ''main'')])] = Inl TypeError
   \<and> getAllThreads [] [(1, [(2, ''main''), (3, ''io'')]), (4, [(5, ''gpu'')])]
       = Inr [''main'', ''io'', ''gpu'']"
  using getAllThreads_kernel_threads [of "[(0, ''swapper'')]" "[(1, [(2, ''main'')])]"]
    getAllThreads_kernel_threads
      [of "[]" "[(1, [(2, ''main''), (3, ''io'')]), (4, [(5, ''gpu'')])]"]
  by simp

subsection \<open>Reading the model after an update\<close>

lemma map_of_dictPutNat: "map_of (dictPutNat k v d) = (map_of d)(k \<mapsto> v)"
  by (induction d) (auto simp: fun_eq_iff)

lemma getProcess_setProcess:
  "getProcess (setProcess pid p m) pid' = (if pid' = pid then p else getProcess m pid')"
  by (simp add: getProcess_def setProcess_def map_of_dictPutNat)

lemma getThread_setThread:
  "getThread (setThread r t m) r' = (if r' = r then t else getThread m r')"
  by (cases r; cases r')
     (auto simp: getThread_def setThread_def Let_def getProcess_setProcess map_of_dictPutNat)

lemma getProcess_getOrCreateProcess:
  "getProcess (getOrCreateProcess pid m) pid' = getProcess m pid'"
  by (auto simp: getProcess_def getOrCreateProcess_def map_of_dictPutNat split: option.splits)

lemma getThread_getOrCreateProcess:
  "getThread (getOrCreateProcess pid m) r = getThread m r"
  by (simp add: getThread_def getProcess_getOrCreateProcess)

lemma getThread_getOrCreateProcessThread:
  "getThread (getOrCreateProcessThread pid tid m) r = getThread m r"
  by (cases r)
     (auto simp: getOrCreateProcessThread_def Let_def getThread_def getProcess_setProcess
        getProcess_getOrCreateProcess getOrCreateThread_def map_of_dictPutNat newThread_def
        newProcess_def
        split: option.splits)

lemma warnings_getOrCreateProcessThread:
  "m_importWarnings (getOrCreateProcessThread pid tid m) = m_importWarnings m"
  by (simp add: getOrCreateProcessThread_def Let_def setProcess_def getOrCreateProcess_def
      split: option.splits)

lemma getThread_importWarning: "getThread (importWarning w m) r = getThread m r"
  by (simp add: importWarning_def getThread_def getProcess_def Let_def)

lemma warnings_importWarning:
  "m_importWarnings (importWarning w m) = m_importWarnings m @ [w]"
  by (simp add: importWarning_def Let_def)

lemma getStackFrameForEvent_throws:
  "stackThrows event b \<Longrightarrow> getStackFrameForEvent event b m = Inl TypeError"
  by (cases b) (simp_all add: getStackFrameForEvent_def stackThrows_def Let_def)

lemma getStackFrameForEvent_returns:
  assumes "\<not> stackThrows event b"
  shows "\<exists>frame m'. getStackFrameForEvent event b m = Inr (frame, m')"
  using assms
  by (cases b) (auto simp: getStackFrameForEvent_def stackThrows_def Let_def split: option.splits)

lemma getStackFrameForEvent_error:
  "getStackFrameForEvent event b m = Inl e \<Longrightarrow> e = TypeError \<and> stackThrows event b"
  by (cases b) (auto simp: getStackFrameForEvent_def stackThrows_def Let_def
      split: option.splits if_splits)

lemma getThread_getStackFrameForEvent:
  "getStackFrameForEvent event b m = Inr (frame, m') \<Longrightarrow> getThread m' r = getThread m r"
  by (auto simp: getStackFrameForEvent_def Let_def getThread_importWarning
      split: option.splits if_splits)


lemma getThread_updateSlice:
  "getThread (updateSlice r i f m) r' =
     (if r' = r then
        (getThread m r)\<lparr> th_sliceGroup := (th_sliceGroup (getThread m r))
           \<lparr> sg_slices := (sg_slices (th_sliceGroup (getThread m r)))
                 [i := f (sg_slices (th_sliceGroup (getThread m r)) ! i)] \<rparr> \<rparr>
      else getThread m r')"
  by (simp add: updateSlice_def Let_def getThread_setThread)

lemma getThread_setSliceGroup:
  "getThread (setSliceGroup r g m) r' =
     (if r' = r then (getThread m r)\<lparr> th_sliceGroup := g \<rparr> else getThread m r')"
  by (simp add: setSliceGroup_def getThread_setThread)

lemma instantEvents_importWarning: "m_instantEvents (importWarning w m) = m_instantEvents m"
  by (simp add: importWarning_def Let_def)

lemma instantEvents_getOrCreateProcessThread:
  "m_instantEvents (getOrCreateProcessThread pid tid m) = m_instantEvents m"
  by (simp add: getOrCreateProcessThread_def Let_def setProcess_def getOrCreateProcess_def
      split: option.splits)

lemma setThread_other_fields:
  "m_importWarnings (setThread r t m) = m_importWarnings m"
  "m_instantEvents (setThread r t m) = m_instantEvents m"
  "m_stackFrames (setThread r t m) = m_stackFrames m"
  "m_flowEvents (setThread r t m) = m_flowEvents m"
  by (simp_all add: setThread_def Let_def setProcess_def)

lemma map_of_dictPut: "map_of (dictPut k v d) = (map_of d)(k \<mapsto> v)"
  by (induction d) (auto simp: fun_eq_iff)

lemma map_of_dictDelete: "map_of (dictDelete k d) = (map_of d)(k := None)"
  by (induction d) (auto simp: dictDelete_def fun_eq_iff)

lemma getProcess_importWarning: "getProcess (importWarning w m) pid = getProcess m pid"
  by (simp add: importWarning_def getProcess_def Let_def)

lemma setProcess_other_fields:
  "m_importWarnings (setProcess pid p m) = m_importWarnings m"
  "m_instantEvents (setProcess pid p m) = m_instantEvents m"
  by (simp_all add: setProcess_def)

lemma warnings_getOrCreateProcess:
  "m_importWarnings (getOrCreateProcess pid m) = m_importWarnings m"
  by (simp add: getOrCreateProcess_def split: option.splits)

subsection \<open>The deferred queues\<close>
























subsection \<open>Complete events\<close>

text \<open>
  C5 (as amended). An X event whose category contains \<^verbatim>\<open>trace_event_overhead\<close>
  leaves the importer as it is (no slice, no warning) and yields no slice. Any other X
  event on which \<^verbatim>\<open>processCompleteEvent\<close> returns (it has no stack without a stack
  frame, at its start and at its end) appends one slice to its thread's slice group and
  leaves the stack of open slices alone; the slice has the event's timestamp as start
  and the event's duration as duration (so it is closed when the event has a duration),
  and the event's flow phase is left at STEP when \<^verbatim>\<open>flow_in\<close> and \<^verbatim>\<open>flow_out\<close>
  are both truthy, PRODUCER when only \<^verbatim>\<open>flow_out\<close> is truthy, CONSUMER when only
  \<^verbatim>\<open>flow_in\<close> is truthy. On the other events that are not overhead the function
  throws a \<^verbatim>\<open>TypeError\<close>.
\<close>

theorem processCompleteEvent_slice_and_flowPhase:
  fixes event :: event and imp :: importer
  defines "r \<equiv> (ev_pid event, ev_tid event)"
  defines "g \<equiv> th_sliceGroup (getThread (model_of imp) r)"
  defines "overhead \<equiv> (case ev_cat event of None \<Rightarrow> False
                         | Some c \<Rightarrow> contains c ''trace_event_overhead'')"
  shows "(overhead \<longrightarrow> processCompleteEvent event imp = Inr (imp, event, None))
    \<and> (\<not> overhead \<and> \<not> stackThrows event False \<and> \<not> stackThrows event True \<longrightarrow>
        (\<exists>imp' event' sl.
           processCompleteEvent event imp = Inr (imp', event', Some (length (sg_slices g)))
           \<and> th_sliceGroup (getThread (model_of imp') r) = g\<lparr> sg_slices := sg_slices g @ [sl] \<rparr>
           \<and> sl_start sl = timestampFromUs (ev_ts event)
           \<and> sl_duration sl = maybeTimestampFromUs (ev_dur event)
           \<and> (ev_dur event \<noteq> None \<longrightarrow> sl_duration sl \<noteq> None)
           \<and> ev_flowPhase event' =
               (if truthy (ev_flow_out event) \<and> truthy (ev_flow_in event) then Some STEP
                else if truthy (ev_flow_out event) then Some PRODUCER
                else if truthy (ev_flow_in event) then Some CONSUMER
                else ev_flowPhase event)))
    \<and> (\<not> overhead \<and> (stackThrows event False \<or> stackThrows event True) \<longrightarrow>
        processCompleteEvent event imp = Inl TypeError)"
proof (cases overhead)
  case True
  then show ?thesis by (simp add: processCompleteEvent_def overhead_def)
next
  case False
  define event1 where "event1 =
     (if truthy (ev_flow_out event) then
        (if truthy (ev_flow_in event) then event\<lparr> ev_flowPhase := Some STEP \<rparr>
         else event\<lparr> ev_flowPhase := Some PRODUCER \<rparr>)
      else if truthy (ev_flow_in event) then event\<lparr> ev_flowPhase := Some CONSUMER \<rparr>
      else event)"
  define m where "m = getOrCreateProcessThread (ev_pid event) (ev_tid event) (model_of imp)"
  define sl0 where "sl0 = newSlice (ev_cat event1) (ev_name event1)
      (getEventColor event1 None) (timestampFromUs (ev_ts event1)) (deepCopyIfNeeded (ev_args event1))
      (maybeTimestampFromUs (ev_dur event1)) (maybeTimestampFromUs (ev_tts event1))
      (maybeTimestampFromUs (ev_tdur event1)) (ev_argsStripped event1)
      (ev_bind_id event1)"
  define i where "i = length (sg_slices g)"
  define m1 where "m1 = setSliceGroup r (g\<lparr> sg_slices := sg_slices g @ [sl0] \<rparr>) m"
  have gm: "th_sliceGroup (getThread m r) = g"
    by (simp add: m_def g_def r_def getThread_getOrCreateProcessThread)
  have e1: "ev_ts event1 = ev_ts event" "ev_dur event1 = ev_dur event"
    "stackThrows event1 False = stackThrows event False"
    "stackThrows event1 True = stackThrows event True"
    by (simp_all add: event1_def stackThrows_def)
  have unfold: "processCompleteEvent event imp =
      bindE (getStackFrameForEvent event1 False m1)
        (\<lambda>(startFrame, m2).
           bindE (getStackFrameForEvent event1 True
                    (updateSlice r i (\<lambda>sl. sl\<lparr> sl_startStackFrame := startFrame \<rparr>) m2))
             (\<lambda>(endFrame, m4).
                Inr (imp\<lparr> model_of :=
                       updateSlice r i (\<lambda>sl. sl\<lparr> sl_endStackFrame := endFrame \<rparr>) m4 \<rparr>,
                     event1, Some i)))"
    using False gm
    unfolding processCompleteEvent_def overhead_def Let_def pushCompleteSlice_def
      event1_def [symmetric] m_def [symmetric] r_def [symmetric]
    by (simp add: sl0_def m1_def i_def newSlice_def)
  have ok: "\<exists>imp' event' sl.
           processCompleteEvent event imp = Inr (imp', event', Some (length (sg_slices g)))
           \<and> th_sliceGroup (getThread (model_of imp') r) = g\<lparr> sg_slices := sg_slices g @ [sl] \<rparr>
           \<and> sl_start sl = timestampFromUs (ev_ts event)
           \<and> sl_duration sl = maybeTimestampFromUs (ev_dur event)
           \<and> (ev_dur event \<noteq> None \<longrightarrow> sl_duration sl \<noteq> None)
           \<and> ev_flowPhase event' =
               (if truthy (ev_flow_out event) \<and> truthy (ev_flow_in event) then Some STEP
                else if truthy (ev_flow_out event) then Some PRODUCER
                else if truthy (ev_flow_in event) then Some CONSUMER
                else ev_flowPhase event)"
    if nt: "\<not> stackThrows event False" "\<not> stackThrows event True"
  proof -
    from nt e1 obtain startFrame m2 where
      sf: "getStackFrameForEvent event1 False m1 = Inr (startFrame, m2)"
      using getStackFrameForEvent_returns [of event1 False m1] by auto
    define m3 where "m3 = updateSlice r i (\<lambda>sl. sl\<lparr> sl_startStackFrame := startFrame \<rparr>) m2"
    from nt e1 obtain endFrame m4 where
      ef: "getStackFrameForEvent event1 True m3 = Inr (endFrame, m4)"
      using getStackFrameForEvent_returns [of event1 True m3] by auto
    define m5 where "m5 = updateSlice r i (\<lambda>sl. sl\<lparr> sl_endStackFrame := endFrame \<rparr>) m4"
    have res: "processCompleteEvent event imp = Inr (imp\<lparr> model_of := m5 \<rparr>, event1, Some i)"
      unfolding unfold by (simp add: bindE_def sf ef m3_def [symmetric] m5_def)
    have t1: "th_sliceGroup (getThread m1 r) = g\<lparr> sg_slices := sg_slices g @ [sl0] \<rparr>"
      by (simp add: m1_def getThread_setSliceGroup)
    have t2: "getThread m2 r = getThread m1 r"
      using getThread_getStackFrameForEvent [OF sf] .
    have t3: "th_sliceGroup (getThread m3 r)
        = g\<lparr> sg_slices := sg_slices g @ [sl0\<lparr> sl_startStackFrame := startFrame \<rparr>] \<rparr>"
      by (simp add: m3_def getThread_updateSlice t2 t1 i_def)
    have t4: "getThread m4 r = getThread m3 r"
      using getThread_getStackFrameForEvent [OF ef] .
    have t5: "th_sliceGroup (getThread m5 r)
        = g\<lparr> sg_slices := sg_slices g @
             [sl0\<lparr> sl_startStackFrame := startFrame, sl_endStackFrame := endFrame \<rparr>] \<rparr>"
      by (simp add: m5_def getThread_updateSlice t4 t3 i_def)
    have "sl_start (sl0\<lparr> sl_startStackFrame := startFrame, sl_endStackFrame := endFrame \<rparr>)
            = timestampFromUs (ev_ts event)"
      and "sl_duration (sl0\<lparr> sl_startStackFrame := startFrame, sl_endStackFrame := endFrame \<rparr>)
            = maybeTimestampFromUs (ev_dur event)"
      by (simp_all add: sl0_def newSlice_def e1)
    moreover have "ev_flowPhase event1 =
                 (if truthy (ev_flow_out event) \<and> truthy (ev_flow_in event) then Some STEP
                  else if truthy (ev_flow_out event) then Some PRODUCER
                  else if truthy (ev_flow_in event) then Some CONSUMER
                  else ev_flowPhase event)"
      by (simp add: event1_def)
    ultimately show ?thesis
      using res t5 unfolding i_def by (auto simp: maybeTimestampFromUs_def)
  qed
  have bad: "processCompleteEvent event imp = Inl TypeError"
    if t: "stackThrows event False \<or> stackThrows event True"
  proof (cases "stackThrows event False")
    case True
    then show ?thesis
      unfolding unfold by (simp add: bindE_def getStackFrameForEvent_throws e1)
  next
    case nf: False
    with t have te: "stackThrows event True" by simp
    from nf e1 obtain startFrame m2 where
      sf: "getStackFrameForEvent event1 False m1 = Inr (startFrame, m2)"
      using getStackFrameForEvent_returns [of event1 False m1] by auto
    show ?thesis
      unfolding unfold by (simp add: bindE_def sf getStackFrameForEvent_throws te e1)
  qed
  from False ok bad show ?thesis by blast
qed

theorem processCompleteEvent_slice_and_flowPhase_witness:
  "processCompleteEvent ((mkEvent ''X'' 1 1 0)\<lparr> ev_cat := Some ''a,trace_event_overhead'' \<rparr>)
       (newImporter newModel)
     = Inr (newImporter newModel,
            (mkEvent ''X'' 1 1 0)\<lparr> ev_cat := Some ''a,trace_event_overhead'' \<rparr>, None)
   \<and> (\<exists>imp' event' sl.
         processCompleteEvent
           ((mkEvent ''X'' 1 1 0)\<lparr> ev_dur := Some 100, ev_bind_id := JNum 7,
                                    ev_flow_out := JBool True \<rparr>)
           (newImporter newModel)
           = Inr (imp', event',
                  Some (length (sg_slices (th_sliceGroup
                          (getThread (model_of (newImporter newModel)) (1, 1))))))
         \<and> th_sliceGroup (getThread (model_of imp') (1, 1))
             = (th_sliceGroup (getThread (model_of (newImporter newModel)) (1, 1)))
                 \<lparr> sg_slices :=
                     sg_slices (th_sliceGroup
                       (getThread (model_of (newImporter newModel)) (1, 1))) @ [sl] \<rparr>
         \<and> sl_start sl = timestampFromUs 0
         \<and> sl_duration sl = maybeTimestampFromUs (Some 100)
         \<and> sl_duration sl \<noteq> None
         \<and> ev_flowPhase event' = Some PRODUCER)
   \<and> processCompleteEvent ((mkEvent ''X'' 1 1 0)\<lparr> ev_estack := JArr [JStr ''0x1''] \<rparr>)
        (newImporter newModel) = Inl TypeError"
  using processCompleteEvent_slice_and_flowPhase
      [of "(mkEvent ''X'' 1 1 0)\<lparr> ev_cat := Some ''a,trace_event_overhead'' \<rparr>"
          "newImporter newModel"]
    processCompleteEvent_slice_and_flowPhase
      [of "(mkEvent ''X'' 1 1 0)\<lparr> ev_dur := Some 100, ev_bind_id := JNum 7,
                                    ev_flow_out := JBool True \<rparr>"
          "newImporter newModel"]
    processCompleteEvent_slice_and_flowPhase
      [of "(mkEvent ''X'' 1 1 0)\<lparr> ev_estack := JArr [JStr ''0x1''] \<rparr>"
          "newImporter newModel"]
  by (simp add: mkEvent_def stackThrows_def)

text \<open>The claim as stated fails twice. With "present" for the flags: an event whose
  \<^verbatim>\<open>flow_in\<close> is true and whose \<^verbatim>\<open>flow_out\<close> is false has both flags present
  and is made a CONSUMER, not a STEP. And not every X event pushes a slice and returns:
  on an event with a stack and no stack frame the function throws.\<close>

theorem processCompleteEvent_present_flags_counterexample:
  "ev_flow_in ((mkEvent ''X'' 1 1 0)\<lparr> ev_flow_in := JBool True, ev_flow_out := JBool False \<rparr>)
     \<noteq> Undefined
   \<and> ev_flow_out ((mkEvent ''X'' 1 1 0)\<lparr> ev_flow_in := JBool True, ev_flow_out := JBool False \<rparr>)
     \<noteq> Undefined
   \<and> (\<exists>imp' event' i.
        processCompleteEvent
          ((mkEvent ''X'' 1 1 0)\<lparr> ev_flow_in := JBool True, ev_flow_out := JBool False \<rparr>)
          (newImporter newModel) = Inr (imp', event', i)
        \<and> ev_flowPhase event' = Some CONSUMER)
   \<and> CONSUMER \<noteq> STEP
   \<and> processCompleteEvent
        ((mkEvent ''X'' 1 1 0)\<lparr> ev_dur := Some 100, ev_stack := JArr [JStr ''0x1''] \<rparr>)
        (newImporter newModel) = Inl TypeError"
  by (simp add: processCompleteEvent_def mkEvent_def Let_def CONSUMER_def STEP_def
      getStackFrameForEvent_def bindE_def pushCompleteSlice_def split: prod.splits)

subsection \<open>Duration and instant events\<close>

text \<open>
  C9 (as amended). For every event handed to \<^verbatim>\<open>processDurationEvent\<close> (the B and
  E events, and the I, i and R events that are thread-scoped, with \<^verbatim>\<open>s\<close> equal to
  \<^verbatim>\<open>'t'\<close> or undefined, and are not V8 JitCode events) whose timestamp is below
  the greatest timestamp observed before in its thread's slice group, the importer adds
  the warning \<^verbatim>\<open>duration_parse_error\<close> with the message
  \<^verbatim>\<open>Timestamps are moving backward.\<close> and drops the event: every thread, hence every
  slice group, the instant events and the deferred queues are as before.
\<close>

theorem timestamps_moving_backward:
  assumes "sg_greatestTs (th_sliceGroup (getThread (model_of imp) (ev_pid event, ev_tid event)))
             = Some greatest"
    and "timestampFromUs (ev_ts event) < greatest"
  shows "\<exists>imp'. processDurationEvent event imp = Inr imp'
           \<and> ((ev_s event = Some ''t'' \<or> ev_s event = None)
                \<and> ev_name event \<noteq> Some ''JitCodeAdded''
                \<and> ev_name event \<noteq> Some ''JitCodeMoved''
              \<longrightarrow> processInstantEvent processJitCodeEvent event imp = Inr imp')
           \<and> m_importWarnings (model_of imp') = m_importWarnings (model_of imp) @
               [\<lparr> w_type = ''duration_parse_error'',
                  w_message = [JStr ''Timestamps are moving backward.''] \<rparr>]
           \<and> (\<forall>r. getThread (model_of imp') r = getThread (model_of imp) r)
           \<and> m_instantEvents (model_of imp') = m_instantEvents (model_of imp)
           \<and> allAsyncEvents imp' = allAsyncEvents imp
           \<and> allFlowEvents imp' = allFlowEvents imp
           \<and> allObjectEvents imp' = allObjectEvents imp"
proof -
  have "processDurationEvent event imp =
      Inr (imp\<lparr> model_of :=
             importWarning
               \<lparr> w_type = ''duration_parse_error'',
                 w_message = [JStr ''Timestamps are moving backward.''] \<rparr>
               (getOrCreateProcessThread (ev_pid event) (ev_tid event) (model_of imp)) \<rparr>)"
    using assms
    by (simp add: processDurationEvent_def Let_def isTimestampValidForBeginOrEnd_def
        getThread_getOrCreateProcessThread)
  then show ?thesis
    by (auto simp: processInstantEvent_def getThread_getOrCreateProcessThread
        getThread_importWarning warnings_importWarning warnings_getOrCreateProcessThread
        instantEvents_importWarning instantEvents_getOrCreateProcessThread)
qed

theorem timestamps_moving_backward_witness:
  "\<exists>imp'. processDurationEvent (mkEvent ''E'' 1 1 5)
        (newImporter (setThread (1, 1)
           (newThread\<lparr> th_sliceGroup := newSliceGroup\<lparr> sg_greatestTs := Some 1 \<rparr> \<rparr>) newModel))
        = Inr imp'
      \<and> m_importWarnings (model_of imp') =
          [\<lparr> w_type = ''duration_parse_error'',
             w_message = [JStr ''Timestamps are moving backward.''] \<rparr>]"
proof -
  let ?imp = "newImporter (setThread (1, 1)
           (newThread\<lparr> th_sliceGroup := newSliceGroup\<lparr> sg_greatestTs := Some 1 \<rparr> \<rparr>) newModel)"
  let ?e = "mkEvent ''E'' 1 1 5"
  have h1: "sg_greatestTs (th_sliceGroup (getThread (model_of ?imp) (ev_pid ?e, ev_tid ?e)))
              = Some 1"
    by (simp add: newImporter_def getThread_setThread mkEvent_def)
  have h2: "timestampFromUs (ev_ts ?e) < 1"
    by (simp add: mkEvent_def timestampFromUs_def)
  have w: "m_importWarnings (model_of ?imp) = []"
    by (simp add: newImporter_def setThread_other_fields newModel_def)
  from timestamps_moving_backward [OF h1 h2, where processJitCodeEvent = "\<lambda>e i. Inr i"]
  show ?thesis unfolding w by auto
qed

text \<open>The claim as stated, for every I, i or R event, fails: an instant event of global
  scope is appended to the model's instant events without any test of its timestamp
  and without a warning.\<close>

theorem global_instant_backward_counterexample:
  "sg_greatestTs (th_sliceGroup (getThread
      (model_of (newImporter (setThread (1, 1)
           (newThread\<lparr> th_sliceGroup := newSliceGroup\<lparr> sg_greatestTs := Some 1 \<rparr> \<rparr>) newModel)))
      (1, 1))) = Some 1
   \<and> timestampFromUs (ev_ts ((mkEvent ''I'' 1 1 5)\<lparr> ev_s := Some ''g'' \<rparr>)) < 1
   \<and> (\<exists>imp'. processInstantEvent (\<lambda>e i. Inr i) ((mkEvent ''I'' 1 1 5)\<lparr> ev_s := Some ''g'' \<rparr>)
        (newImporter (setThread (1, 1)
           (newThread\<lparr> th_sliceGroup := newSliceGroup\<lparr> sg_greatestTs := Some 1 \<rparr> \<rparr>) newModel))
        = Inr imp'
      \<and> m_importWarnings (model_of imp') = []
      \<and> length (m_instantEvents (model_of imp')) = 1)"
  by (simp add: newImporter_def getThread_setThread mkEvent_def timestampFromUs_def
      processInstantEvent_def setThread_other_fields newModel_def)

subsection \<open>Counter events\<close>

text \<open>What holds of the samples: a C event with arguments, for a counter that has
  series, appends to each series one sample at the event's timestamp, the argument of
  the series' name if it is truthy and 0 otherwise, and emits no warning.\<close>

lemma processCounterEvent_adds_samples:
  fixes counterId :: "string option \<Rightarrow> string option \<Rightarrow> string" and event :: event
  defines "ctrName \<equiv> (case ev_id event of
               Some i \<Rightarrow> Some (strOf (ev_name event) @ ''['' @ i @ '']'')
             | None \<Rightarrow> ev_name event)"
  assumes ctr: "map_of (pr_counters (getProcess (model_of imp) (ev_pid event)))
                  (counterId (ev_cat event) ctrName) = Some ctr"
    and series: "ctr_series ctr \<noteq> []"
    and a: "ev_args event = Some a"
  shows "\<exists>imp'. processCounterEvent counterId event imp = Inr imp'
           \<and> map_of (pr_counters (getProcess (model_of imp') (ev_pid event)))
                 (counterId (ev_cat event) ctrName)
               = Some (ctr\<lparr> ctr_series :=
                    map (\<lambda>series. series\<lparr> cs_samples := cs_samples series @
                           [(timestampFromUs (ev_ts event),
                             case map_of a (cs_name series) of
                               Some v \<Rightarrow> if truthy v then v else JNum 0
                             | None \<Rightarrow> JNum 0)] \<rparr>)
                      (ctr_series ctr) \<rparr>)
           \<and> m_importWarnings (model_of imp') = m_importWarnings (model_of imp)"
  using ctr series a
  unfolding ctrName_def processCounterEvent_def Let_def
  by (auto simp: getOrCreateCounter_def getProcess_getOrCreateProcess map_of_dictPut
      getProcess_setProcess numSeries_def addCounterSample_def sampleValue_def
      setProcess_other_fields warnings_getOrCreateProcess
      split: option.splits)

text \<open>
  C8. The first C event of a counter, with no arguments, emits
  \<^verbatim>\<open>counter_parse_error\<close>; the counter is then deleted from its parent under the
  key \<^verbatim>\<open>ctr.name\<close>. The claim has the counter removed from its parent. The code at
  such an event: whenever the key under which the parent files the counter differs from
  the counter's name, as a key made of category and name does, the counter, without
  series, is still in the parent's dictionary.
\<close>

theorem processCounterEvent_keeps_counter:
  fixes counterId :: "string option \<Rightarrow> string option \<Rightarrow> string" and event :: event
  defines "ctrName \<equiv> (case ev_id event of
               Some i \<Rightarrow> Some (strOf (ev_name event) @ ''['' @ i @ '']'')
             | None \<Rightarrow> ev_name event)"
  assumes noArgs: "ev_args event = None \<or> ev_args event = Some []"
    and first: "map_of (pr_counters (getProcess (model_of imp) (ev_pid event)))
                  (counterId (ev_cat event) ctrName) = None"
    and key: "counterId (ev_cat event) ctrName \<noteq> strOf ctrName"
  shows "\<exists>imp'. processCounterEvent counterId event imp = Inr imp'
           \<and> m_importWarnings (model_of imp') = m_importWarnings (model_of imp) @
               [\<lparr> w_type = ''counter_parse_error'',
                  w_message = [JStr ''Expected counter '', optStr (ev_name event),
                               JStr '' to have at least one argument to use as a value.''] \<rparr>]
           \<and> map_of (pr_counters (getProcess (model_of imp') (ev_pid event)))
                 (counterId (ev_cat event) ctrName)
               = Some \<lparr> ctr_id = counterId (ev_cat event) ctrName,
                        ctr_category = ev_cat event, ctr_name = ctrName, ctr_series = [] \<rparr>"
  using noArgs first key
  unfolding ctrName_def processCounterEvent_def Let_def
  by (auto simp: getOrCreateCounter_def getProcess_getOrCreateProcess map_of_dictPut
      map_of_dictDelete getProcess_setProcess newCounter_def numSeries_def
      warnings_importWarning setProcess_other_fields warnings_getOrCreateProcess
      getProcess_importWarning
      split: option.splits)

theorem processCounterEvent_keeps_counter_witness:
  "\<exists>imp'. processCounterEvent (\<lambda>c n. strOf c @ ''.'' @ strOf n)
       ((mkEvent ''C'' 1 1 0)\<lparr> ev_cat := Some ''c'', ev_name := Some ''n'', ev_args := Some [] \<rparr>)
       (newImporter newModel) = Inr imp'
     \<and> m_importWarnings (model_of imp') =
         [\<lparr> w_type = ''counter_parse_error'',
            w_message = [JStr ''Expected counter '', JStr ''n'',
                         JStr '' to have at least one argument to use as a value.''] \<rparr>]
     \<and> map_of (pr_counters (getProcess (model_of imp') 1)) ''c.n''
         = Some \<lparr> ctr_id = ''c.n'', ctr_category = Some ''c'', ctr_name = Some ''n'',
                  ctr_series = [] \<rparr>"
  using processCounterEvent_keeps_counter
    [of "(mkEvent ''C'' 1 1 0)\<lparr> ev_cat := Some ''c'', ev_name := Some ''n'', ev_args := Some [] \<rparr>"
        "newImporter newModel" "\<lambda>c n. strOf c @ ''.'' @ strOf n"]
  by (simp add: mkEvent_def newImporter_def newModel_def getProcess_def newProcess_def
      strOf_def optStr_def)

subsection \<open>Edges between memory allocator dumps\<close>

















subsection \<open>Flow events\<close>

lemma importWarning_flow_fields:
  "m_flowEventObjects (importWarning w m) = m_flowEventObjects m"
  "m_flowEvents (importWarning w m) = m_flowEvents m"
  by (simp_all add: importWarning_def Let_def)

lemma setThread_flowEventObjects:
  "m_flowEventObjects (setThread r t m) = m_flowEventObjects m"
  by (simp add: setThread_def Let_def setProcess_def)

lemma updateSlice_other_fields:
  "m_flowEventObjects (updateSlice r i f m) = m_flowEventObjects m"
  "m_flowEvents (updateSlice r i f m) = m_flowEvents m"
  "m_importWarnings (updateSlice r i f m) = m_importWarnings m"
  by (simp_all add: updateSlice_def Let_def setThread_other_fields setThread_flowEventObjects)

lemma getStackFrameForEvent_flow_fields:
  assumes "getStackFrameForEvent e b m = Inr (frame, m')"
  shows "m_flowEventObjects m' = m_flowEventObjects m" "m_flowEvents m' = m_flowEvents m"
  using assms
  by (cases b; auto simp: getStackFrameForEvent_def Let_def importWarning_flow_fields
      split: option.splits if_splits)+

lemma mergeArgsInto_flow_fields:
  "mergeArgsInto d s n m = Inr (a, m') \<Longrightarrow>
   m_flowEventObjects m' = m_flowEventObjects m \<and> m_flowEvents m' = m_flowEvents m"
proof (induction d s n m rule: mergeArgsInto.induct)
  case (1 dstArgs eventName m)
  then show ?case by simp
next
  case (2 dstArgs arg v srcArgs eventName m)
  define m1 where "m1 =
            (if (case propRead dstArgs arg of
                   Own old \<Rightarrow> old \<noteq> Undefined
                 | Inherited k \<Rightarrow> True
                 | Missing \<Rightarrow> False)
             then importWarning
                    \<lparr> w_type = ''arg_merge_error'',
                      w_message = [JStr ''Different phases of '', optStr eventName,
                                   JStr '' provided values for argument '', JStr arg,
                                   JStr ''. The last provided value will be used.''] \<rparr> m
             else m)"
  have f: "m_flowEventObjects m1 = m_flowEventObjects m" "m_flowEvents m1 = m_flowEvents m"
    by (simp_all add: m1_def importWarning_flow_fields)
  show ?case
  proof (cases "arg = ''__proto__'' \<and> map_of dstArgs arg = None")
    case True
    with "2.prems" have nv: "\<not> isObjectOrNull v"
      and r: "mergeArgsInto dstArgs srcArgs eventName m1 = Inr (a, m')"
      by (auto simp: Let_def m1_def split: if_splits)
    from "2.IH"(1) [OF m1_def True nv r] f show ?thesis by simp
  next
    case False
    with "2.prems" have r: "mergeArgsInto (dictPut arg v dstArgs) srcArgs eventName m1
                              = Inr (a, m')"
      by (auto simp: Let_def m1_def split: if_splits)
    from "2.IH"(2) [OF m1_def False r] f show ?thesis by simp
  qed
qed

lemma mergeArgsInto_returns:
  "''__proto__'' \<notin> fst ` set s \<Longrightarrow> \<exists>a m'. mergeArgsInto d s n m = Inr (a, m')"
  by (induction d s n m rule: mergeArgsInto.induct) (auto simp: Let_def)

lemma updateFlowEvent_fields:
  "m_flowEvents (updateFlowEvent p f m) = m_flowEvents m"
  "m_importWarnings (updateFlowEvent p f m) = m_importWarnings m"
  "length (m_flowEventObjects (updateFlowEvent p f m)) = length (m_flowEventObjects m)"
  "p < length (m_flowEventObjects m) \<Longrightarrow>
     m_flowEventObjects (updateFlowEvent p f m) ! p = f (m_flowEventObjects m ! p)"
  by (simp_all add: updateFlowEvent_def)

lemma assignFlow_no_proto:
  "assignFlow k v d = Inr d' \<Longrightarrow> map_of d ''__proto__'' = None \<Longrightarrow>
   map_of d' ''__proto__'' = None"
  by (auto simp: assignFlow_def map_of_dictPut split: if_splits option.splits)

lemma readFlow_FlowObj:
  "readFlow d k = Some (FlowObj pos) \<Longrightarrow> map_of d k = Some (Some pos)"
  by (auto simp: readFlow_def propRead_def split: option.splits if_splits)

lemma readFlow_closed: "k \<noteq> ''__proto__'' \<Longrightarrow> readFlow (dictPut k None d) k = None"
  by (simp add: readFlow_def propRead_def map_of_dictPut)

lemma finishFlowEventWith_v1_found:
  assumes v1: "\<not> truthy (ev_bind_id event)"
    and found: "(if bindToParent then findSliceAtTs fnd (th_sliceGroup (getThread m r))
                       (timestampFromUs (ev_ts event))
                 else findNextSliceAfter fnd (th_sliceGroup (getThread m r))
                       (timestampFromUs (ev_ts event)) refGuid) = Some i"
    and wf: "pos < length (m_flowEventObjects m)"
    and ns: "\<not> stackThrows event False"
    and np: "''__proto__'' \<notin> fst ` set (case ev_args event of None \<Rightarrow> [] | Some a \<Rightarrow> a)"
  shows "\<exists>m'. finishFlowEventWith fnd (FlowObj pos) (Some r) event refGuid bindToParent None m
                = Inr (True, m')
           \<and> fe_endSlice (m_flowEventObjects m' ! pos) = Some (r, i)
           \<and> m_flowEvents m' = m_flowEvents m"
proof -
  define ts where "ts = timestampFromUs (ev_ts event)"
  define m1 where "m1 = updateSlice r i
        (\<lambda>sl. sl\<lparr> sl_inFlowEvents := sl_inFlowEvents sl @ [pos] \<rparr>) m"
  define m2 where "m2 = updateFlowEvent pos
        (\<lambda>fe. fe\<lparr> fe_endSlice := Some (r, i),
                   fe_duration := map_option (\<lambda>start. ts - start) (fe_start fe) \<rparr>) m1"
  from getStackFrameForEvent_returns [OF ns]
  obtain frame m3 where sf: "getStackFrameForEvent event False m2 = Inr (frame, m3)" by blast
  define m4 where "m4 = updateFlowEvent pos (\<lambda>fe. fe\<lparr> fe_endStackFrame := frame \<rparr>) m3"
  from mergeArgsInto_returns [OF np]
  obtain args' m5 where ma: "mergeArgsInto (fe_args (m_flowEventObjects m4 ! pos))
        (case ev_args event of None \<Rightarrow> [] | Some a \<Rightarrow> a)
        (fe_title (m_flowEventObjects m4 ! pos)) m4 = Inr (args', m5)" by blast
  define m6 where "m6 = updateFlowEvent pos (\<lambda>fe. fe\<lparr> fe_args := args' \<rparr>) m5"
  have res: "finishFlowEventWith fnd (FlowObj pos) (Some r) event refGuid bindToParent None m
                = Inr (True, m6)"
    using v1 found sf ma
    unfolding finishFlowEventWith_def Let_def ts_def [symmetric]
    by (auto simp: m1_def m2_def m4_def m6_def bindE_def split: if_splits)
  have o1: "m_flowEventObjects m1 = m_flowEventObjects m" "m_flowEvents m1 = m_flowEvents m"
    by (simp_all add: m1_def updateSlice_other_fields)
  have l2: "pos < length (m_flowEventObjects m1)" using wf o1 by simp
  have o2: "fe_endSlice (m_flowEventObjects m2 ! pos) = Some (r, i)"
    "m_flowEvents m2 = m_flowEvents m" "pos < length (m_flowEventObjects m2)"
    using l2 by (simp_all add: m2_def updateFlowEvent_fields o1)
  have o3: "m_flowEventObjects m3 = m_flowEventObjects m2" "m_flowEvents m3 = m_flowEvents m2"
    using getStackFrameForEvent_flow_fields [OF sf] by simp_all
  have o4: "fe_endSlice (m_flowEventObjects m4 ! pos) = Some (r, i)"
    "m_flowEvents m4 = m_flowEvents m" "pos < length (m_flowEventObjects m4)"
    using o2 o3 by (simp_all add: m4_def updateFlowEvent_fields)
  have o5: "m_flowEventObjects m5 = m_flowEventObjects m4" "m_flowEvents m5 = m_flowEvents m4"
    using mergeArgsInto_flow_fields [OF ma] by simp_all
  have o6: "fe_endSlice (m_flowEventObjects m6 ! pos) = Some (r, i)"
    "m_flowEvents m6 = m_flowEvents m"
    using o4 o5 by (simp_all add: m6_def updateFlowEvent_fields)
  from res o6 show ?thesis by blast
qed

lemma finishFlowEventWith_v1_throws:
  assumes v1: "\<not> truthy (ev_bind_id event)"
    and found: "(if bindToParent then findSliceAtTs fnd (th_sliceGroup (getThread m r))
                       (timestampFromUs (ev_ts event))
                 else findNextSliceAfter fnd (th_sliceGroup (getThread m r))
                       (timestampFromUs (ev_ts event)) refGuid) = Some i"
    and ns: "stackThrows event False"
  shows "finishFlowEventWith fnd (FlowObj pos) (Some r) event refGuid bindToParent None m
           = Inl TypeError"
  using v1 found getStackFrameForEvent_throws [OF ns]
  by (auto simp: finishFlowEventWith_def Let_def bindE_def split: if_splits)

lemma finishFlowEventWith_v1_not_found:
  assumes v1: "\<not> truthy (ev_bind_id event)"
    and nf: "(if bindToParent then findSliceAtTs fnd (th_sliceGroup (getThread m r))
                       (timestampFromUs (ev_ts event))
                 else findNextSliceAfter fnd (th_sliceGroup (getThread m r))
                       (timestampFromUs (ev_ts event)) refGuid) = None"
  shows "finishFlowEventWith fnd flowEvent (Some r) event refGuid bindToParent None m
           = Inr (False, m)"
  using assms by (auto simp: finishFlowEventWith_def Let_def split: if_splits)

lemma validateFlowEvent_v1:
  "ev_name event \<noteq> None \<Longrightarrow> ev_id event \<noteq> None \<Longrightarrow>
   ev_ph event = ''s'' \<or> ev_ph event = ''f'' \<or> ev_ph event = ''t'' \<Longrightarrow>
   validateFlowEvent event m = (True, m)"
  by (auto simp: validateFlowEvent_def)

lemma flowStep_no_name:
  assumes "ev_name (es_event data) = None"
  shows "flowStep numberToString fnd data st =
     Inr (st\<lparr> fs_model :=
            importWarning
              \<lparr> w_type = ''flow_slice_parse_error'',
                w_message = [JStr ''Flow events (ph: s, t or f) require a name parameter.''] \<rparr>
              (fs_model st) \<rparr>)"
  using assms by (simp add: flowStep_def Let_def validateFlowEvent_def)

lemma flowStep_no_id:
  assumes "ev_ph (es_event data) = ''f''" and "ev_name (es_event data) \<noteq> None"
    and "ev_id (es_event data) = None"
  shows "flowStep numberToString fnd data st =
     Inr (st\<lparr> fs_model :=
            importWarning
              \<lparr> w_type = ''flow_slice_parse_error'',
                w_message = [JStr ''Flow events (ph: s, t or f) require an id parameter.''] \<rparr>
              (fs_model st) \<rparr>)"
  using assms by (auto simp add: flowStep_def Let_def validateFlowEvent_def)

lemma flowStep_no_flow:
  assumes "ev_ph (es_event data) = ''f''" and "\<not> truthy (ev_bind_id (es_event data))"
    and "ev_name (es_event data) \<noteq> None" and "ev_id (es_event data) \<noteq> None"
    and "readFlow (fs_flowIdToEvent st) (strOf (ev_id (es_event data))) = None"
  shows "flowStep numberToString fnd data st =
     Inr (st\<lparr> fs_model :=
            importWarning
              \<lparr> w_type = ''flow_slice_ordering_error'',
                w_message = [JStr ''Found flow phase '', JStr ''f'', JStr '' for id: '',
                             optStr (ev_id (es_event data)),
                             JStr '' but no flow start found.''] \<rparr>
              (fs_model st) \<rparr>)"
  using assms by (simp add: flowStep_def Let_def validateFlowEvent_v1)

lemma flowStep_invalid_bp:
  assumes "ev_ph (es_event data) = ''f''" and "\<not> truthy (ev_bind_id (es_event data))"
    and "ev_name (es_event data) \<noteq> None" and "ev_id (es_event data) \<noteq> None"
    and "readFlow (fs_flowIdToEvent st) (strOf (ev_id (es_event data))) = Some flowEvent"
    and "ev_bp (es_event data) \<noteq> Undefined" and "ev_bp (es_event data) \<noteq> JStr ''e''"
  shows "flowStep numberToString fnd data st =
     Inr (st\<lparr> fs_model :=
            importWarning
              \<lparr> w_type = ''flow_slice_bind_point_error'',
                w_message = [JStr ''Flow event with invalid binding point (event.bp).''] \<rparr>
              (fs_model st) \<rparr>)"
  using assms by (simp add: flowStep_def Let_def validateFlowEvent_v1)

lemma flowStep_no_cat:
  assumes "ev_ph (es_event data) = ''f''" and "\<not> truthy (ev_bind_id (es_event data))"
    and "ev_name (es_event data) \<noteq> None" and "ev_id (es_event data) \<noteq> None"
    and "readFlow (fs_flowIdToEvent st) (strOf (ev_id (es_event data))) = Some flowEvent"
    and "ev_bp (es_event data) = Undefined" and "ev_cat (es_event data) = None"
  shows "flowStep numberToString fnd data st = Inl TypeError"
  using assms by (simp add: flowStep_def Let_def validateFlowEvent_v1)

lemma flowStep_f_finish:
  assumes "ev_ph (es_event data) = ''f''" and "\<not> truthy (ev_bind_id (es_event data))"
    and "ev_name (es_event data) \<noteq> None" and "ev_id (es_event data) = Some fid"
    and "readFlow (fs_flowIdToEvent st) fid = Some (FlowObj pos)"
    and "fid \<noteq> ''__proto__''"
    and "ev_bp (es_event data) = JStr ''e''
         \<or> (ev_bp (es_event data) = Undefined \<and> ev_cat (es_event data) = Some cat)"
  shows "flowStep numberToString fnd data st =
     bindE (finishFlowEventWith fnd (FlowObj pos) (Some (es_thread data)) (es_event data)
              (fes_refGuid data)
              (ev_bp (es_event data) = JStr ''e'' \<or> contains cat ''input''
               \<or> contains cat ''ipc.flow'')
              None (fs_model st))
       (\<lambda>(ok, m1).
          Inr (st\<lparr> fs_model :=
                 (if ok then m1\<lparr> m_flowEvents := m_flowEvents m1 @ [pos] \<rparr>
                  else importWarning
                         \<lparr> w_type = ''flow_slice_end_error'',
                           w_message =
                             [JStr ''event id '', JStr fid,
                              JStr '' does not end at an actual slice, so cannot be created.''] \<rparr>
                         m1),
               fs_flowIdToEvent := dictPut fid None (fs_flowIdToEvent st) \<rparr>))"
  using assms
  by (auto simp: flowStep_def Let_def validateFlowEvent_v1 strOf_def optStr_def bindE_def
      assignFlow_def split: prod.splits sum.splits)

text \<open>
  C6 (as amended). Take a flow event of phase \<^verbatim>\<open>f\<close> without a truthy
  \<^verbatim>\<open>bind_id\<close> (flow API v1). Without a name or without an id it is dropped with a
  \<^verbatim>\<open>flow_slice_parse_error\<close> warning, and with an id that is not that of an open
  flow it is dropped with a \<^verbatim>\<open>flow_slice_ordering_error\<close> warning, whatever its
  \<^verbatim>\<open>bp\<close>. With a name and the id of an open flow:

  \<^item> if its \<^verbatim>\<open>bp\<close> is defined and is not \<^verbatim>\<open>'e'\<close>, the only effect is the
    warning \<^verbatim>\<open>flow_slice_bind_point_error\<close>: the flow stays open;
  \<^item> if its \<^verbatim>\<open>bp\<close> is \<^verbatim>\<open>'e'\<close>, or its \<^verbatim>\<open>bp\<close> is undefined and it has a
    category, the end of the flow is looked up with \<^verbatim>\<open>findSliceAtTs\<close> (the slice
    containing the timestamp) when \<^verbatim>\<open>bp\<close> is \<^verbatim>\<open>'e'\<close> or the category contains
    \<^verbatim>\<open>input\<close> or \<^verbatim>\<open>ipc.flow\<close>, and with \<^verbatim>\<open>findNextSliceAfter\<close> (the next
    slice after the timestamp) otherwise. If no slice is found, the warning
    \<^verbatim>\<open>flow_slice_end_error\<close> is emitted and the flow is closed. If a slice is found
    and the event has no \<^verbatim>\<open>stack\<close> without \<^verbatim>\<open>sf\<close> (and no argument named
    \<^verbatim>\<open>__proto__\<close>), the slice becomes the end slice of the flow, the flow is added
    to the flow events of the model, and the flow is closed;
  \<^item> if its \<^verbatim>\<open>bp\<close> is undefined and it has no category, the importer throws a
    \<^verbatim>\<open>TypeError\<close>; it also does when a slice is found and the event has a
    \<^verbatim>\<open>stack\<close> without \<^verbatim>\<open>sf\<close>.

  The open flow is a flow event of the model, at position \<open>pos\<close>; the dictionary of
  the open flows never has \<^verbatim>\<open>__proto__\<close> as a property of its own, so that the id
  of such a flow is not \<^verbatim>\<open>__proto__\<close>.
\<close>

theorem flow_end_bind_point:
  fixes data :: flowEventState and st :: flowState and fnd :: finders
  defines "event \<equiv> es_event data"
  defines "ts \<equiv> timestampFromUs (ev_ts event)"
  defines "g \<equiv> th_sliceGroup (getThread (fs_model st) (es_thread data))"
  defines "fid \<equiv> strOf (ev_id event)"
  defines "bindToParent \<equiv> (ev_bp event = JStr ''e'' \<or> contains (strOf (ev_cat event)) ''input''
                             \<or> contains (strOf (ev_cat event)) ''ipc.flow'')"
  defines "found \<equiv> (if bindToParent then findSliceAtTs fnd g ts
                     else findNextSliceAfter fnd g ts (fes_refGuid data))"
  defines "warned \<equiv> (\<lambda>w. Inr (st\<lparr> fs_model := importWarning w (fs_model st) \<rparr>))"
  assumes f: "ev_ph event = ''f''" and v1: "\<not> truthy (ev_bind_id event)"
  shows
    "(ev_name event = None \<longrightarrow>
        flowStep numberToString fnd data st =
          warned \<lparr> w_type = ''flow_slice_parse_error'',
                   w_message = [JStr ''Flow events (ph: s, t or f) require a name parameter.''] \<rparr>)
     \<and> (ev_name event \<noteq> None \<and> ev_id event = None \<longrightarrow>
        flowStep numberToString fnd data st =
          warned \<lparr> w_type = ''flow_slice_parse_error'',
                   w_message = [JStr ''Flow events (ph: s, t or f) require an id parameter.''] \<rparr>)
     \<and> (ev_name event \<noteq> None \<and> ev_id event \<noteq> None
          \<and> readFlow (fs_flowIdToEvent st) fid = None \<longrightarrow>
        flowStep numberToString fnd data st =
          warned \<lparr> w_type = ''flow_slice_ordering_error'',
                   w_message = [JStr ''Found flow phase '', JStr ''f'', JStr '' for id: '',
                                JStr fid, JStr '' but no flow start found.''] \<rparr>)
     \<and> (ev_name event \<noteq> None \<and> ev_id event \<noteq> None
          \<and> readFlow (fs_flowIdToEvent st) fid = Some flowRef
          \<and> ev_bp event \<noteq> Undefined \<and> ev_bp event \<noteq> JStr ''e'' \<longrightarrow>
        flowStep numberToString fnd data st =
          warned \<lparr> w_type = ''flow_slice_bind_point_error'',
                   w_message = [JStr ''Flow event with invalid binding point (event.bp).''] \<rparr>)
     \<and> (ev_name event \<noteq> None \<and> ev_id event \<noteq> None
          \<and> readFlow (fs_flowIdToEvent st) fid = Some (FlowObj pos)
          \<and> pos < length (m_flowEventObjects (fs_model st))
          \<and> map_of (fs_flowIdToEvent st) ''__proto__'' = None
          \<and> (ev_bp event = JStr ''e'' \<or> (ev_bp event = Undefined \<and> ev_cat event \<noteq> None)) \<longrightarrow>
        (found = None \<longrightarrow>
           flowStep numberToString fnd data st =
             Inr (st\<lparr> fs_model :=
                        importWarning
                          \<lparr> w_type = ''flow_slice_end_error'',
                            w_message =
                              [JStr ''event id '', JStr fid,
                               JStr '' does not end at an actual slice, so cannot be created.''] \<rparr>
                          (fs_model st),
                      fs_flowIdToEvent := dictPut fid None (fs_flowIdToEvent st) \<rparr>))
        \<and> (found \<noteq> None \<and> \<not> stackThrows event False
            \<and> ''__proto__'' \<notin> fst ` set (case ev_args event of None \<Rightarrow> [] | Some a \<Rightarrow> a) \<longrightarrow>
           (\<exists>m'. flowStep numberToString fnd data st =
                    Inr (st\<lparr> fs_model := m',
                             fs_flowIdToEvent := dictPut fid None (fs_flowIdToEvent st) \<rparr>)
                \<and> map_option (Pair (es_thread data)) found
                    = fe_endSlice (m_flowEventObjects m' ! pos)
                \<and> m_flowEvents m' = m_flowEvents (fs_model st) @ [pos]))
        \<and> (found \<noteq> None \<and> stackThrows event False \<longrightarrow>
           flowStep numberToString fnd data st = Inl TypeError)
        \<and> readFlow (dictPut fid None (fs_flowIdToEvent st)) fid = None)
     \<and> (ev_name event \<noteq> None \<and> ev_id event \<noteq> None
          \<and> readFlow (fs_flowIdToEvent st) fid = Some flowRef
          \<and> ev_bp event = Undefined \<and> ev_cat event = None \<longrightarrow>
        flowStep numberToString fnd data st = Inl TypeError)"
proof (intro conjI impI; (elim conjE)?)
  assume "ev_name event = None"
  then show "flowStep numberToString fnd data st =
          warned \<lparr> w_type = ''flow_slice_parse_error'',
                   w_message = [JStr ''Flow events (ph: s, t or f) require a name parameter.''] \<rparr>"
    unfolding warned_def event_def by (rule flowStep_no_name)
next
  assume "ev_name event \<noteq> None" "ev_id event = None"
  with f show "flowStep numberToString fnd data st =
          warned \<lparr> w_type = ''flow_slice_parse_error'',
                   w_message = [JStr ''Flow events (ph: s, t or f) require an id parameter.''] \<rparr>"
    unfolding warned_def event_def by (simp add: flowStep_no_id)
next
  assume "ev_name event \<noteq> None" "ev_id event \<noteq> None"
    "readFlow (fs_flowIdToEvent st) fid = None"
  with f v1 show "flowStep numberToString fnd data st =
          warned \<lparr> w_type = ''flow_slice_ordering_error'',
                   w_message = [JStr ''Found flow phase '', JStr ''f'', JStr '' for id: '',
                                JStr fid, JStr '' but no flow start found.''] \<rparr>"
    unfolding warned_def event_def fid_def
    by (auto simp: flowStep_no_flow optStr_def strOf_def)
next
  assume "ev_name event \<noteq> None" "ev_id event \<noteq> None"
    "readFlow (fs_flowIdToEvent st) fid = Some flowRef"
    "ev_bp event \<noteq> Undefined" "ev_bp event \<noteq> JStr ''e''"
  with f v1 show "flowStep numberToString fnd data st =
          warned \<lparr> w_type = ''flow_slice_bind_point_error'',
                   w_message = [JStr ''Flow event with invalid binding point (event.bp).''] \<rparr>"
    unfolding warned_def event_def fid_def
    using flowStep_invalid_bp [of data st flowRef numberToString fnd] by simp
next
  assume "ev_name event \<noteq> None" "ev_id event \<noteq> None"
    "readFlow (fs_flowIdToEvent st) fid = Some flowRef"
    "ev_bp event = Undefined" "ev_cat event = None"
  with f v1 show "flowStep numberToString fnd data st = Inl TypeError"
    unfolding event_def fid_def
    using flowStep_no_cat [of data st flowRef numberToString fnd] by simp
next
  assume name: "ev_name event \<noteq> None" and id: "ev_id event \<noteq> None"
    and opened: "readFlow (fs_flowIdToEvent st) fid = Some (FlowObj pos)"
    and wf: "pos < length (m_flowEventObjects (fs_model st))"
    and np: "map_of (fs_flowIdToEvent st) ''__proto__'' = None"
    and bp: "ev_bp event = JStr ''e'' \<or> (ev_bp event = Undefined \<and> ev_cat event \<noteq> None)"
  from opened np have fp: "fid \<noteq> ''__proto__''"
    using readFlow_FlowObj [of "fs_flowIdToEvent st" fid pos] by auto
  from id have fid': "ev_id event = Some fid" by (auto simp: fid_def strOf_def)
  have step: "flowStep numberToString fnd data st =
     bindE (finishFlowEventWith fnd (FlowObj pos) (Some (es_thread data)) event
              (fes_refGuid data) bindToParent None (fs_model st))
       (\<lambda>(ok, m1).
          Inr (st\<lparr> fs_model :=
                 (if ok then m1\<lparr> m_flowEvents := m_flowEvents m1 @ [pos] \<rparr>
                  else importWarning
                         \<lparr> w_type = ''flow_slice_end_error'',
                           w_message =
                             [JStr ''event id '', JStr fid,
                              JStr '' does not end at an actual slice, so cannot be created.''] \<rparr>
                         m1),
               fs_flowIdToEvent := dictPut fid None (fs_flowIdToEvent st) \<rparr>))"
  proof (cases "ev_cat event")
    case None
    with bp have e: "ev_bp event = JStr ''e''" by simp
    with flowStep_f_finish [of data fid st pos undefined numberToString fnd]
      f v1 name fid' opened fp
    show ?thesis by (simp add: event_def bindToParent_def)
  next
    case (Some cat)
    with flowStep_f_finish [of data fid st pos cat numberToString fnd]
      f v1 name fid' opened fp bp
    show ?thesis by (simp add: event_def bindToParent_def strOf_def)
  qed
  show "readFlow (dictPut fid None (fs_flowIdToEvent st)) fid = None"
    using fp by (rule readFlow_closed)
  {
    assume nf: "found = None"
    then have "finishFlowEventWith fnd (FlowObj pos) (Some (es_thread data)) event
              (fes_refGuid data) bindToParent None (fs_model st) = Inr (False, fs_model st)"
      using finishFlowEventWith_v1_not_found [of event bindToParent fnd "fs_model st"
          "es_thread data" "fes_refGuid data" "FlowObj pos"] v1
      unfolding found_def g_def ts_def by simp
    with step show "flowStep numberToString fnd data st =
             Inr (st\<lparr> fs_model :=
                        importWarning
                          \<lparr> w_type = ''flow_slice_end_error'',
                            w_message =
                              [JStr ''event id '', JStr fid,
                               JStr '' does not end at an actual slice, so cannot be created.''] \<rparr>
                          (fs_model st),
                      fs_flowIdToEvent := dictPut fid None (fs_flowIdToEvent st) \<rparr>)"
      by (simp add: bindE_def)
  }
  {
    assume fo: "found \<noteq> None" and ns: "\<not> stackThrows event False"
      and na: "''__proto__'' \<notin> fst ` set (case ev_args event of None \<Rightarrow> [] | Some a \<Rightarrow> a)"
    from fo obtain i where i: "found = Some i" by auto
    then obtain m1 where
      fin: "finishFlowEventWith fnd (FlowObj pos) (Some (es_thread data)) event
              (fes_refGuid data) bindToParent None (fs_model st) = Inr (True, m1)"
      and e: "fe_endSlice (m_flowEventObjects m1 ! pos) = Some (es_thread data, i)"
      and fl: "m_flowEvents m1 = m_flowEvents (fs_model st)"
      using finishFlowEventWith_v1_found [of event bindToParent fnd "fs_model st"
          "es_thread data" "fes_refGuid data" i pos] v1 wf ns na
      unfolding found_def g_def ts_def by auto
    from step fin have "flowStep numberToString fnd data st =
        Inr (st\<lparr> fs_model := m1\<lparr> m_flowEvents := m_flowEvents m1 @ [pos] \<rparr>,
                 fs_flowIdToEvent := dictPut fid None (fs_flowIdToEvent st) \<rparr>)"
      by (simp add: bindE_def)
    with i e fl show "\<exists>m'. flowStep numberToString fnd data st =
                    Inr (st\<lparr> fs_model := m',
                             fs_flowIdToEvent := dictPut fid None (fs_flowIdToEvent st) \<rparr>)
                \<and> map_option (Pair (es_thread data)) found
                    = fe_endSlice (m_flowEventObjects m' ! pos)
                \<and> m_flowEvents m' = m_flowEvents (fs_model st) @ [pos]"
      by (intro exI [where x = "m1\<lparr> m_flowEvents := m_flowEvents m1 @ [pos] \<rparr>"]) simp
  }
  {
    assume fo: "found \<noteq> None" and ns: "stackThrows event False"
    from fo obtain i where i: "found = Some i" by auto
    then have "finishFlowEventWith fnd (FlowObj pos) (Some (es_thread data)) event
              (fes_refGuid data) bindToParent None (fs_model st) = Inl TypeError"
      using finishFlowEventWith_v1_throws [of event bindToParent fnd "fs_model st"
          "es_thread data" "fes_refGuid data" i pos] v1 ns
      unfolding found_def g_def ts_def by auto
    with step show "flowStep numberToString fnd data st = Inl TypeError"
      by (simp add: bindE_def)
  }
qed

theorem flow_end_bind_point_witness:
  "flowStep (\<lambda>n. []) flowFinders (flowEndEvent (JStr ''x'') (Some ''input'')) flowScenario
     = Inr (flowScenario\<lparr> fs_model :=
              importWarning
                \<lparr> w_type = ''flow_slice_bind_point_error'',
                  w_message = [JStr ''Flow event with invalid binding point (event.bp).''] \<rparr>
                (fs_model flowScenario) \<rparr>)
   \<and> (\<exists>m'. flowStep (\<lambda>n. []) flowFinders (flowEndEvent Undefined (Some ''input'')) flowScenario
               = Inr (flowScenario\<lparr> fs_model := m', fs_flowIdToEvent := [(''7'', None)] \<rparr>)
           \<and> fe_endSlice (m_flowEventObjects m' ! 0) = Some ((1, 1), 0)
           \<and> m_flowEvents m' = [0])
   \<and> (\<exists>m'. flowStep (\<lambda>n. []) flowFinders (flowEndEvent Undefined (Some ''other'')) flowScenario
               = Inr (flowScenario\<lparr> fs_model := m', fs_flowIdToEvent := [(''7'', None)] \<rparr>)
           \<and> fe_endSlice (m_flowEventObjects m' ! 0) = Some ((1, 1), 1)
           \<and> m_flowEvents m' = [0])"
proof (intro conjI)
  let ?x = "flowEndEvent (JStr ''x'') (Some ''input'')"
  let ?i = "flowEndEvent Undefined (Some ''input'')"
  let ?o = "flowEndEvent Undefined (Some ''other'')"
  have x: "ev_ph (es_event ?x) = ''f''" "\<not> truthy (ev_bind_id (es_event ?x))"
    "ev_name (es_event ?x) \<noteq> None" "ev_id (es_event ?x) \<noteq> None"
    "readFlow (fs_flowIdToEvent flowScenario) (strOf (ev_id (es_event ?x))) = Some (FlowObj 0)"
    "ev_bp (es_event ?x) \<noteq> Undefined" "ev_bp (es_event ?x) \<noteq> JStr ''e''"
    by (simp_all add: flowEndEvent_def mkEvent_def flowScenario_def readFlow_def propRead_def
        strOf_def)
  from flow_end_bind_point [where data = ?x and st = flowScenario and flowRef = "FlowObj 0"
      and numberToString = "\<lambda>n. []" and fnd = flowFinders, OF x(1,2),
      THEN conjunct2, THEN conjunct2, THEN conjunct2, THEN conjunct1] x(3-)
  show "flowStep (\<lambda>n. []) flowFinders ?x flowScenario
     = Inr (flowScenario\<lparr> fs_model :=
              importWarning
                \<lparr> w_type = ''flow_slice_bind_point_error'',
                  w_message = [JStr ''Flow event with invalid binding point (event.bp).''] \<rparr>
                (fs_model flowScenario) \<rparr>)"
    by blast
  have s: "0 < length (m_flowEventObjects (fs_model flowScenario))"
    "map_of (fs_flowIdToEvent flowScenario) ''__proto__'' = None"
    "dictPut ''7'' None (fs_flowIdToEvent flowScenario) = [(''7'', None)]"
    "m_flowEvents (fs_model flowScenario) = []"
    by (simp_all add: flowScenario_def newModel_def setSliceGroup_def setThread_other_fields
        getOrCreateProcessThread_def Let_def getOrCreateProcess_def setProcess_def
        setProcess_other_fields)
  have i: "ev_ph (es_event ?i) = ''f''" "\<not> truthy (ev_bind_id (es_event ?i))"
    "ev_name (es_event ?i) \<noteq> None" "ev_id (es_event ?i) \<noteq> None"
    "readFlow (fs_flowIdToEvent flowScenario) (strOf (ev_id (es_event ?i))) = Some (FlowObj 0)"
    "ev_bp (es_event ?i) = JStr ''e''
     \<or> (ev_bp (es_event ?i) = Undefined \<and> ev_cat (es_event ?i) \<noteq> None)"
    "\<not> stackThrows (es_event ?i) False"
    "''__proto__'' \<notin> fst ` set (case ev_args (es_event ?i) of None \<Rightarrow> [] | Some a \<Rightarrow> a)"
    "strOf (ev_id (es_event ?i)) = ''7''" "es_thread ?i = (1, 1)"
    by (simp_all add: flowEndEvent_def mkEvent_def flowScenario_def readFlow_def propRead_def
        strOf_def stackThrows_def)
  have fi: "(if ev_bp (es_event ?i) = JStr ''e''
                \<or> contains (strOf (ev_cat (es_event ?i))) ''input''
                \<or> contains (strOf (ev_cat (es_event ?i))) ''ipc.flow''
             then findSliceAtTs flowFinders
                    (th_sliceGroup (getThread (fs_model flowScenario) (es_thread ?i)))
                    (timestampFromUs (ev_ts (es_event ?i)))
             else findNextSliceAfter flowFinders
                    (th_sliceGroup (getThread (fs_model flowScenario) (es_thread ?i)))
                    (timestampFromUs (ev_ts (es_event ?i))) (fes_refGuid ?i)) = Some 0"
    by (simp add: flowEndEvent_def mkEvent_def flowFinders_def strOf_def)
  from flow_end_bind_point [where data = ?i and st = flowScenario and pos = 0
      and numberToString = "\<lambda>n. []" and fnd = flowFinders,
      OF i(1,2), THEN conjunct2, THEN conjunct2, THEN conjunct2, THEN conjunct2,
      THEN conjunct1] i(3-8) s(1,2) fi
  have "\<exists>m'. flowStep (\<lambda>n. []) flowFinders ?i flowScenario =
                Inr (flowScenario\<lparr> fs_model := m',
                       fs_flowIdToEvent :=
                         dictPut (strOf (ev_id (es_event ?i))) None
                           (fs_flowIdToEvent flowScenario) \<rparr>)
            \<and> map_option (Pair (es_thread ?i)) (Some 0)
                = fe_endSlice (m_flowEventObjects m' ! 0)
            \<and> m_flowEvents m' = m_flowEvents (fs_model flowScenario) @ [0]"
    by simp
  then show "\<exists>m'. flowStep (\<lambda>n. []) flowFinders ?i flowScenario
               = Inr (flowScenario\<lparr> fs_model := m', fs_flowIdToEvent := [(''7'', None)] \<rparr>)
           \<and> fe_endSlice (m_flowEventObjects m' ! 0) = Some ((1, 1), 0)
           \<and> m_flowEvents m' = [0]"
    unfolding i(9,10) s(3,4) by auto
  have o: "ev_ph (es_event ?o) = ''f''" "\<not> truthy (ev_bind_id (es_event ?o))"
    "ev_name (es_event ?o) \<noteq> None" "ev_id (es_event ?o) \<noteq> None"
    "readFlow (fs_flowIdToEvent flowScenario) (strOf (ev_id (es_event ?o))) = Some (FlowObj 0)"
    "ev_bp (es_event ?o) = JStr ''e''
     \<or> (ev_bp (es_event ?o) = Undefined \<and> ev_cat (es_event ?o) \<noteq> None)"
    "\<not> stackThrows (es_event ?o) False"
    "''__proto__'' \<notin> fst ` set (case ev_args (es_event ?o) of None \<Rightarrow> [] | Some a \<Rightarrow> a)"
    "strOf (ev_id (es_event ?o)) = ''7''" "es_thread ?o = (1, 1)"
    by (simp_all add: flowEndEvent_def mkEvent_def flowScenario_def readFlow_def propRead_def
        strOf_def stackThrows_def)
  have fo: "(if ev_bp (es_event ?o) = JStr ''e''
                \<or> contains (strOf (ev_cat (es_event ?o))) ''input''
                \<or> contains (strOf (ev_cat (es_event ?o))) ''ipc.flow''
             then findSliceAtTs flowFinders
                    (th_sliceGroup (getThread (fs_model flowScenario) (es_thread ?o)))
                    (timestampFromUs (ev_ts (es_event ?o)))
             else findNextSliceAfter flowFinders
                    (th_sliceGroup (getThread (fs_model flowScenario) (es_thread ?o)))
                    (timestampFromUs (ev_ts (es_event ?o))) (fes_refGuid ?o)) = Some 1"
    by (simp add: flowEndEvent_def mkEvent_def flowFinders_def strOf_def)
  from flow_end_bind_point [where data = ?o and st = flowScenario and pos = 0
      and numberToString = "\<lambda>n. []" and fnd = flowFinders,
      OF o(1,2), THEN conjunct2, THEN conjunct2, THEN conjunct2, THEN conjunct2,
      THEN conjunct1] o(3-8) s(1,2) fo
  have "\<exists>m'. flowStep (\<lambda>n. []) flowFinders ?o flowScenario =
                Inr (flowScenario\<lparr> fs_model := m',
                       fs_flowIdToEvent :=
                         dictPut (strOf (ev_id (es_event ?o))) None
                           (fs_flowIdToEvent flowScenario) \<rparr>)
            \<and> map_option (Pair (es_thread ?o)) (Some 1)
                = fe_endSlice (m_flowEventObjects m' ! 0)
            \<and> m_flowEvents m' = m_flowEvents (fs_model flowScenario) @ [0]"
    by simp
  then show "\<exists>m'. flowStep (\<lambda>n. []) flowFinders ?o flowScenario
               = Inr (flowScenario\<lparr> fs_model := m', fs_flowIdToEvent := [(''7'', None)] \<rparr>)
           \<and> fe_endSlice (m_flowEventObjects m' ! 0) = Some ((1, 1), 1)
           \<and> m_flowEvents m' = [0]"
    unfolding o(9,10) s(3,4) by auto
qed

text \<open>
  An event of phase \<^verbatim>\<open>f\<close> for the open flow, with neither \<^verbatim>\<open>bp\<close> nor category:
  the importer throws, and binds the end of the flow to no slice. And an event of
  phase \<^verbatim>\<open>f\<close> with the \<^verbatim>\<open>bp\<close> \<^verbatim>\<open>'x'\<close> when no flow is open: the warning is a
  \<^verbatim>\<open>flow_slice_ordering_error\<close>, and no \<^verbatim>\<open>flow_slice_bind_point_error\<close> is
  emitted.
\<close>

theorem flow_end_counterexample:
  "flowStep (\<lambda>n. []) flowFinders (flowEndEvent Undefined None) flowScenario = Inl TypeError
   \<and> flowStep (\<lambda>n. []) flowFinders (flowEndEvent (JStr ''x'') (Some ''input''))
       (flowScenario\<lparr> fs_flowIdToEvent := [] \<rparr>)
     = Inr (flowScenario\<lparr> fs_flowIdToEvent := [],
              fs_model :=
                importWarning
                  \<lparr> w_type = ''flow_slice_ordering_error'',
                    w_message = [JStr ''Found flow phase '', JStr ''f'', JStr '' for id: '',
                                 JStr ''7'', JStr '' but no flow start found.''] \<rparr>
                  (fs_model flowScenario) \<rparr>)"
  by code_simp

subsection \<open>Legacy async slices\<close>

lemma legacyScenario_queue:
  "allAsyncEvents (legacyScenario stepPh) =
   [\<lparr> es_sequenceNumber = 0,
      es_event = (mkEvent ''S'' 1 1 0)\<lparr> ev_name := Some ''q'', ev_id := Some ''7'' \<rparr>,
      es_thread = (1, 1) \<rparr>,
    \<lparr> es_sequenceNumber = 1,
      es_event = (mkEvent stepPh 1 1 5)\<lparr> ev_name := Some ''q'', ev_id := Some ''7'',
                                 ev_args := Some [(''step'', JStr ''a'')] \<rparr>,
      es_thread = (1, 1) \<rparr>,
    \<lparr> es_sequenceNumber = 2,
      es_event = (mkEvent ''F'' 1 1 10)\<lparr> ev_name := Some ''q'', ev_id := Some ''7'' \<rparr>,
      es_thread = (1, 1) \<rparr>]"
  by (simp add: legacyScenario_def processAsyncEvent_def newImporter_def Let_def mkEvent_def)

lemma legacyScenario_sorted:
  "jsSort compareEventStates (allAsyncEvents (legacyScenario stepPh))
     = allAsyncEvents (legacyScenario stepPh)"
  by (simp add: legacyScenario_queue jsSort_def compareEventStates_def mkEvent_def)

lemma legacyScenario_model:
  "getThread (model_of (legacyScenario stepPh)) (1, 1) = newThread
   \<and> m_importWarnings (model_of (legacyScenario stepPh)) = []"
  by (simp add: legacyScenario_def processAsyncEvent_def newImporter_def Let_def mkEvent_def
      getThread_getOrCreateProcessThread warnings_getOrCreateProcessThread)
     (simp add: getThread_def getProcess_def newModel_def newProcess_def)

text \<open>
  C1 (as amended). For the legacy async events S at 0 (name q, id 7), T at 5 (id 7,
  \<^verbatim>\<open>args.step = 'a'\<close>) and F at 10 (id 7), the importer produces exactly one async
  slice, of duration 10 microseconds, in the async slice group of the start thread,
  without a warning; the slice has exactly one sub-slice, named \<^verbatim>\<open>q:a\<close>, which
  starts at 5 and ends at 10 microseconds. With a step of phase \<^verbatim>\<open>p\<close> in place of
  \<^verbatim>\<open>T\<close> the sub-slice starts at 0 and ends at 5 microseconds.
\<close>

theorem legacy_async_scenario:
  "(\<exists>m' slice sub.
     createLegacyAsyncSlices numberToString (allAsyncEvents (legacyScenario ''T''))
       (model_of (legacyScenario ''T'')) = Inr m'
     \<and> th_asyncSliceGroup (getThread m' (1, 1)) = [AsyncSlice slice [AsyncSlice sub []]]
     \<and> as_startThread slice = Some (1, 1)
     \<and> as_start slice = timestampFromUs 0 \<and> as_duration slice = timestampFromUs 10
     \<and> as_title sub = ''q:a''
     \<and> as_start sub = timestampFromUs 5
     \<and> as_start sub + as_duration sub = timestampFromUs 10
     \<and> m_importWarnings m' = [])
   \<and> (\<exists>m' slice sub.
     createLegacyAsyncSlices numberToString (allAsyncEvents (legacyScenario ''p''))
       (model_of (legacyScenario ''p'')) = Inr m'
     \<and> th_asyncSliceGroup (getThread m' (1, 1)) = [AsyncSlice slice [AsyncSlice sub []]]
     \<and> as_startThread slice = Some (1, 1)
     \<and> as_start slice = timestampFromUs 0 \<and> as_duration slice = timestampFromUs 10
     \<and> as_title sub = ''q:a''
     \<and> as_start sub = timestampFromUs 0
     \<and> as_start sub + as_duration sub = timestampFromUs 5
     \<and> m_importWarnings m' = [])"
  unfolding createLegacyAsyncSlices_def legacyScenario_sorted
  apply (simp add: legacyScenario_queue)
  apply (simp add: bindE_def legacyStep_def Let_def mkEvent_def finishLegacySlice_def
      assertStepTypeMatches_def strOf_def argsOf_def pushAsyncSlice_def getThread_setThread
      setThread_other_fields legacyScenario_model [simplified] newThread_def
      newAsyncSlice_def timestampFromUs_def dictDelete_def)
  done

text \<open>The claim as stated fails: with the step of phase \<^verbatim>\<open>T\<close> the sub-slice does
  not start at 0 and does not end at 5 microseconds.\<close>

theorem legacy_async_sub_slice_counterexample:
  "\<exists>m' slice sub.
     createLegacyAsyncSlices (\<lambda>n. []) (allAsyncEvents (legacyScenario ''T''))
       (model_of (legacyScenario ''T'')) = Inr m'
     \<and> th_asyncSliceGroup (getThread m' (1, 1)) = [AsyncSlice slice [AsyncSlice sub []]]
     \<and> as_title sub = ''q:a''
     \<and> as_start sub \<noteq> timestampFromUs 0
     \<and> as_start sub + as_duration sub \<noteq> timestampFromUs 5"
  unfolding createLegacyAsyncSlices_def legacyScenario_sorted
  apply (simp add: legacyScenario_queue)
  apply (simp add: bindE_def legacyStep_def Let_def mkEvent_def finishLegacySlice_def
      assertStepTypeMatches_def strOf_def argsOf_def pushAsyncSlice_def getThread_setThread
      setThread_other_fields legacyScenario_model [simplified] newThread_def
      newAsyncSlice_def timestampFromUs_def dictDelete_def)
  done

subsection \<open>Nestable async slices\<close>

lemma matchStep_unfold:
  "matchStep entries k (marks, stack) =
     ((if stackAfterEnd entries k stack \<noteq> [] then
         (marksAfterEnd entries k marks stack)
           [k := (marksAfterEnd entries k marks stack ! k)
                   \<lparr> em_parentEntry := Some (last (stackAfterEnd entries k stack)) \<rparr>]
       else marksAfterEnd entries k marks stack),
      (if ev_ph (es_event (entries ! k)) = ''b'' then stackAfterEnd entries k stack @ [k]
       else stackAfterEnd entries k stack))"
proof (cases "ev_ph (es_event (entries ! k)) = ''e''")
  case False
  then show ?thesis
    unfolding matchStep_def marksAfterEnd_def stackAfterEnd_def Let_def
    by (simp only: fst_conv snd_conv if_False prod.case)
next
  case True
  show ?thesis
  proof (cases "findParentIndex entries stack (ev_name (es_event (entries ! k)))")
    case None
    show ?thesis
      unfolding matchStep_def marksAfterEnd_def stackAfterEnd_def Let_def
      by (simp only: fst_conv snd_conv if_P [OF True] None option.case prod.case)
  next
    case (Some a)
    show ?thesis
      unfolding matchStep_def marksAfterEnd_def stackAfterEnd_def Let_def
      by (simp only: fst_conv snd_conv if_P [OF True] Some option.case prod.case)
  qed
qed


lemma marks_update_end:
  "em_parentEntry (ms[a := (ms ! a)\<lparr> em_end := x \<rparr>] ! j) = em_parentEntry (ms ! j)"
  "em_finished (ms[a := (ms ! a)\<lparr> em_end := x \<rparr>] ! j) = em_finished (ms ! j)"
proof -
  show "em_parentEntry (ms[a := (ms ! a)\<lparr> em_end := x \<rparr>] ! j) = em_parentEntry (ms ! j)"
    by (cases "a < length ms") (simp_all add: nth_list_update list_update_beyond)
  show "em_finished (ms[a := (ms ! a)\<lparr> em_end := x \<rparr>] ! j) = em_finished (ms ! j)"
    by (cases "a < length ms") (simp_all add: nth_list_update list_update_beyond)
qed

lemma marks_update_finished:
  "em_parentEntry (ms[a := (ms ! a)\<lparr> em_finished := y \<rparr>] ! j) = em_parentEntry (ms ! j)"
  "em_end (ms[a := (ms ! a)\<lparr> em_finished := y \<rparr>] ! j) = em_end (ms ! j)"
proof -
  show "em_parentEntry (ms[a := (ms ! a)\<lparr> em_finished := y \<rparr>] ! j) = em_parentEntry (ms ! j)"
    by (cases "a < length ms") (simp_all add: nth_list_update list_update_beyond)
  show "em_end (ms[a := (ms ! a)\<lparr> em_finished := y \<rparr>] ! j) = em_end (ms ! j)"
    by (cases "a < length ms") (simp_all add: nth_list_update list_update_beyond)
qed

lemma marks_update_parentEntry:
  "em_end (ms[a := (ms ! a)\<lparr> em_parentEntry := z \<rparr>] ! j) = em_end (ms ! j)"
  "em_finished (ms[a := (ms ! a)\<lparr> em_parentEntry := z \<rparr>] ! j) = em_finished (ms ! j)"
proof -
  show "em_end (ms[a := (ms ! a)\<lparr> em_parentEntry := z \<rparr>] ! j) = em_end (ms ! j)"
    by (cases "a < length ms") (simp_all add: nth_list_update list_update_beyond)
  show "em_finished (ms[a := (ms ! a)\<lparr> em_parentEntry := z \<rparr>] ! j) = em_finished (ms ! j)"
    by (cases "a < length ms") (simp_all add: nth_list_update list_update_beyond)
qed

lemma findParentIndex_Some:
  assumes "findParentIndex entries parentStack name = Some k"
  shows "k < length parentStack \<and> ev_name (es_event (entries ! (parentStack ! k))) = name"
proof -
  from assms obtain rest where
    "filter (\<lambda>k. ev_name (es_event (entries ! (parentStack ! k))) = name)
       (rev [0..<length parentStack]) = k # rest"
    unfolding findParentIndex_def by (simp split: list.splits)
  then have "k \<in> set (filter (\<lambda>k. ev_name (es_event (entries ! (parentStack ! k))) = name)
       (rev [0..<length parentStack]))"
    by simp
  then show ?thesis by simp
qed



lemma marksAfterEnd_length:
  "length (marksAfterEnd entries k marks stack) = length marks"
  by (simp add: marksAfterEnd_def split: option.splits)

lemma stackAfterEnd_subset:
  "set (stackAfterEnd entries k stack) \<subseteq> set stack"
  by (auto simp: stackAfterEnd_def split: option.splits dest: in_set_takeD)

lemma marksAfterEnd_parentEntry:
  "em_parentEntry (marksAfterEnd entries k marks stack ! j) = em_parentEntry (marks ! j)"
  by (simp add: marksAfterEnd_def marks_update_end marks_update_finished split: option.splits)

lemma marksAfterEnd_end:
  assumes "em_end (marksAfterEnd entries k marks stack ! j) = Some e"
  shows "em_end (marks ! j) = Some e
         \<or> (e = k \<and> ev_ph (es_event (entries ! k)) = ''e'' \<and> j \<in> set stack
            \<and> ev_name (es_event (entries ! k)) = ev_name (es_event (entries ! j)))"
proof (cases "ev_ph (es_event (entries ! k)) = ''e''")
  case False
  with assms show ?thesis by (simp add: marksAfterEnd_def)
next
  case True
  show ?thesis
  proof (cases "findParentIndex entries stack (ev_name (es_event (entries ! k)))")
    case None
    with True assms show ?thesis
      by (simp add: marksAfterEnd_def marks_update_finished)
  next
    case (Some p)
    from findParentIndex_Some [OF Some]
    have p: "p < length stack"
      and n: "ev_name (es_event (entries ! (stack ! p))) = ev_name (es_event (entries ! k))"
      by simp_all
    from True Some assms
    have a: "em_end (marks[stack ! p := (marks ! (stack ! p))\<lparr> em_end := Some k \<rparr>] ! j) = Some e"
      by (simp add: marksAfterEnd_def)
    show ?thesis
    proof (cases "stack ! p = j \<and> j < length marks")
      case True
      with a have "e = k" by simp
      moreover from True p have "j \<in> set stack" using nth_mem by blast
      ultimately show ?thesis using \<open>ev_ph (es_event (entries ! k)) = ''e''\<close> n True by simp
    next
      case False
      then have "marks[stack ! p := (marks ! (stack ! p))\<lparr> em_end := Some k \<rparr>] ! j = marks ! j"
        by (cases "stack ! p = j") (simp_all add: list_update_beyond)
      with a show ?thesis by simp
    qed
  qed
qed

lemma marksAfterEnd_finished:
  assumes "em_finished (marks ! j) = Some False"
  shows "em_finished (marksAfterEnd entries k marks stack ! j) = Some False"
proof (cases "k < length marks")
  case True
  with assms show ?thesis
    by (simp add: marksAfterEnd_def marks_update_end nth_list_update split: option.splits)
next
  case False
  with assms show ?thesis
    by (simp add: marksAfterEnd_def marks_update_end list_update_beyond split: option.splits)
qed

lemma marksAfterEnd_finished_new:
  assumes "ev_ph (es_event (entries ! k)) = ''e''" and "k < length marks"
    and "findParentIndex entries stack (ev_name (es_event (entries ! k))) = None"
  shows "em_finished (marksAfterEnd entries k marks stack ! k) = Some False"
  using assms by (simp add: marksAfterEnd_def)

lemma matchStep_inv:
  assumes inv: "matchInv entries k st" and k: "k < length entries"
  shows "matchInv entries (Suc k) (matchStep entries k st)"
proof -
  obtain marks stack where st: "st = (marks, stack)" by (cases st)
  from inv have len: "length marks = length entries"
    unfolding matchInv_def st by simp
  from inv have stk: "\<forall>s \<in> set stack. s < k \<and> ev_ph (es_event (entries ! s)) = ''b''"
    unfolding matchInv_def st by simp
  from inv have en: "\<forall>j e. j < length entries \<and> em_end (marks ! j) = Some e
            \<longrightarrow> j < e \<and> e < k \<and> ev_ph (es_event (entries ! e)) = ''e''
                \<and> ev_name (es_event (entries ! e)) = ev_name (es_event (entries ! j))"
    unfolding matchInv_def st by simp
  from inv have fin: "\<forall>j. j < k \<and> ev_ph (es_event (entries ! j)) = ''e''
              \<and> (\<forall>b < j. ev_ph (es_event (entries ! b)) = ''b''
                     \<longrightarrow> ev_name (es_event (entries ! b)) \<noteq> ev_name (es_event (entries ! j)))
            \<longrightarrow> em_finished (marks ! j) = Some False"
    unfolding matchInv_def st by simp
  from inv have par: "\<forall>j p. j < length entries \<and> em_parentEntry (marks ! j) = Some p
            \<longrightarrow> p < j \<and> ev_ph (es_event (entries ! p)) = ''b''"
    unfolding matchInv_def st by simp
  define marks1 where "marks1 = marksAfterEnd entries k marks stack"
  define stack1 where "stack1 = stackAfterEnd entries k stack"
  define marks2 where "marks2 =
     (if stack1 \<noteq> [] then marks1[k := (marks1 ! k)\<lparr> em_parentEntry := Some (last stack1) \<rparr>]
      else marks1)"
  define stack2 where "stack2 =
     (if ev_ph (es_event (entries ! k)) = ''b'' then stack1 @ [k] else stack1)"
  have res: "matchStep entries k st = (marks2, stack2)"
    unfolding st matchStep_unfold marks2_def stack2_def marks1_def stack1_def ..
  have len1: "length marks1 = length entries"
    by (simp add: marks1_def marksAfterEnd_length len)
  have sub1: "set stack1 \<subseteq> set stack"
    by (simp add: stack1_def stackAfterEnd_subset)
  have len2: "length marks2 = length entries"
    by (simp add: marks2_def len1)
  have end2: "\<And>j. em_end (marks2 ! j) = em_end (marks1 ! j)"
    by (simp add: marks2_def marks_update_parentEntry)
  have fin2: "\<And>j. em_finished (marks2 ! j) = em_finished (marks1 ! j)"
    by (simp add: marks2_def marks_update_parentEntry)
  have stk2: "\<forall>s \<in> set stack2. s < Suc k \<and> ev_ph (es_event (entries ! s)) = ''b''"
    using stk sub1 by (auto simp: stack2_def less_Suc_eq)
  have en2: "\<forall>j e. j < length entries \<and> em_end (marks2 ! j) = Some e
            \<longrightarrow> j < e \<and> e < Suc k \<and> ev_ph (es_event (entries ! e)) = ''e''
                \<and> ev_name (es_event (entries ! e)) = ev_name (es_event (entries ! j))"
  proof (intro allI impI)
    fix j e
    assume a: "j < length entries \<and> em_end (marks2 ! j) = Some e"
    then have "em_end (marksAfterEnd entries k marks stack ! j) = Some e"
      by (simp add: end2 marks1_def)
    from marksAfterEnd_end [OF this]
    show "j < e \<and> e < Suc k \<and> ev_ph (es_event (entries ! e)) = ''e''
                \<and> ev_name (es_event (entries ! e)) = ev_name (es_event (entries ! j))"
    proof
      assume "em_end (marks ! j) = Some e"
      with en a show ?thesis using less_Suc_eq by blast
    next
      assume "e = k \<and> ev_ph (es_event (entries ! k)) = ''e'' \<and> j \<in> set stack
            \<and> ev_name (es_event (entries ! k)) = ev_name (es_event (entries ! j))"
      with stk show ?thesis by simp
    qed
  qed
  have fn2: "\<forall>j. j < Suc k \<and> ev_ph (es_event (entries ! j)) = ''e''
              \<and> (\<forall>b < j. ev_ph (es_event (entries ! b)) = ''b''
                     \<longrightarrow> ev_name (es_event (entries ! b)) \<noteq> ev_name (es_event (entries ! j)))
            \<longrightarrow> em_finished (marks2 ! j) = Some False"
  proof (intro allI impI)
    fix j
    assume a: "j < Suc k \<and> ev_ph (es_event (entries ! j)) = ''e''
              \<and> (\<forall>b < j. ev_ph (es_event (entries ! b)) = ''b''
                     \<longrightarrow> ev_name (es_event (entries ! b)) \<noteq> ev_name (es_event (entries ! j)))"
    show "em_finished (marks2 ! j) = Some False"
    proof (cases "j = k")
      case False
      with a have "j < k" by simp
      with fin a have "em_finished (marks ! j) = Some False" by blast
      from marksAfterEnd_finished [OF this] show ?thesis
        by (simp add: fin2 marks1_def)
    next
      case True
      have "findParentIndex entries stack (ev_name (es_event (entries ! k))) = None"
      proof (cases "findParentIndex entries stack (ev_name (es_event (entries ! k)))")
        case None
        then show ?thesis .
      next
        case (Some p)
        from findParentIndex_Some [OF Some]
        have p: "p < length stack"
          and n: "ev_name (es_event (entries ! (stack ! p))) = ev_name (es_event (entries ! k))"
          by simp_all
        from p have "stack ! p \<in> set stack" by simp
        with stk have "stack ! p < k" "ev_ph (es_event (entries ! (stack ! p))) = ''b''"
          by simp_all
        with a True n show ?thesis by blast
      qed
      with a True k len show ?thesis
        by (simp add: fin2 marks1_def marksAfterEnd_finished_new)
    qed
  qed
  have par1: "\<And>j. em_parentEntry (marks1 ! j) = em_parentEntry (marks ! j)"
    by (simp add: marks1_def marksAfterEnd_parentEntry)
  have par2: "\<forall>j p. j < length entries \<and> em_parentEntry (marks2 ! j) = Some p
            \<longrightarrow> p < j \<and> ev_ph (es_event (entries ! p)) = ''b''"
  proof (intro allI impI)
    fix j p
    assume a: "j < length entries \<and> em_parentEntry (marks2 ! j) = Some p"
    show "p < j \<and> ev_ph (es_event (entries ! p)) = ''b''"
    proof (cases "j = k \<and> stack1 \<noteq> []")
      case True
      then have "em_parentEntry (marks2 ! j) = Some (last stack1)"
        using len1 k by (simp add: marks2_def)
      with a have "p = last stack1" by simp
      then have "p \<in> set stack" using True sub1 last_in_set by blast
      with stk True show ?thesis by simp
    next
      case False
      from a have j: "j < length entries" and e2: "em_parentEntry (marks2 ! j) = Some p"
        by simp_all
      have "marks2 ! j = marks1 ! j"
      proof (cases "stack1 = []")
        case True
        then show ?thesis by (simp add: marks2_def)
      next
        case ne: False
        with False have "j \<noteq> k" by simp
        then show ?thesis using ne by (simp add: marks2_def)
      qed
      with e2 par1 have "em_parentEntry (marks ! j) = Some p" by simp
      with par j show ?thesis by blast
    qed
  qed
  show ?thesis
    unfolding res matchInv_def fst_conv snd_conv
    using len2 stk2 en2 fn2 par2 by (intro conjI)
qed


lemma matchLoop_inv:
  "k \<le> length entries \<Longrightarrow>
   matchInv entries k
     (foldl (\<lambda>st i. matchStep entries i st) (replicate (length entries) noMarks, []) [0..<k])"
proof (induction k)
  case 0
  show ?case by (auto simp: matchInv_def noMarks_def)
next
  case (Suc k)
  then show ?case using matchStep_inv [of entries k] by simp
qed

lemma matchEntries_inv:
  "matchInv entries (length entries) (matchEntries entries, 
     snd (foldl (\<lambda>st i. matchStep entries i st) (replicate (length entries) noMarks, [])
            [0..<length entries]))"
  using matchLoop_inv [of "length entries" entries] by (simp add: matchEntries_def)

lemma matchEntries_length:
  "length (matchEntries entries) = length entries"
  using matchEntries_inv [of entries] by (simp add: matchInv_def)

































end
